theory Spec2Isabelle
  imports Main "HOL-Library.Word" "HOL-Library.AList" "HOL-Library.Char_ord"
    "HOL-Library.List_Lexorder"
begin

unbundle bit_operations_syntax

section \<open>Python values used by the ledger\<close>

text \<open>
  A Python \<open>bytes\<close> object is a list of 8-bit words. A Python \<open>str\<close> is a
  \<open>string\<close> holding its UTF-8 bytes, so \<open>str.encode()\<close> and the \<open>decode()\<close> of
  the ASCII output of an encoder only change the element type. Python integers are
  unbounded: \<open>int\<close>.
\<close>

type_synonym byte = "8 word"
type_synonym bytes = "byte list"

definition encode :: "string \<Rightarrow> bytes" where
  "encode s = map (\<lambda>c. of_nat (of_char c)) s"

definition decode :: "bytes \<Rightarrow> string" where
  "decode bs = map (\<lambda>b. char_of (unat b)) bs"

text \<open>The exceptions the modelled code can raise, as values.\<close>

datatype error =
    ValueError string
  | KeyError string
  | IndexError
  | TypeError
  | AttributeError
  | ZeroDivisionError
  | FileNotFoundError string
  | LibraryError string

text \<open>\<open>str(n)\<close> for an integer, as the f-strings of the source render it.\<close>

definition digit_char :: "nat \<Rightarrow> char" where
  "digit_char d = char_of (48 + d)"

fun str_nat :: "nat \<Rightarrow> string" where
  "str_nat n = (if n < 10 then [digit_char n] else str_nat (n div 10) @ [digit_char (n mod 10)])"

declare str_nat.simps [simp del]

definition str_int :: "int \<Rightarrow> string" where
  "str_int i = (if i < 0 then CHR ''-'' # str_nat (nat (- i)) else str_nat (nat i))"

text \<open>The values \<open>json.loads\<close> can return; \<open>JOther\<close> stands for every value that is
  neither a string, an integer nor an object (lists, floats, booleans, null).\<close>

datatype json = JStr string | JInt int | JObj "(string \<times> json) list" | JOther

text \<open>\<open>d[key]\<close> on the result of \<open>json.loads\<close>.\<close>

definition getitem :: "json \<Rightarrow> string \<Rightarrow> error + json" where
  "getitem d k = (case d of
       JObj kvs \<Rightarrow> (case map_of kvs k of None \<Rightarrow> Inl (KeyError k) | Some v \<Rightarrow> Inr v)
     | _ \<Rightarrow> Inl TypeError)"

text \<open>\<open>v.encode()\<close> where \<open>v\<close> came out of a JSON record: only a \<open>str\<close> has the method.\<close>

definition json_encode :: "json \<Rightarrow> error + bytes" where
  "json_encode v = (case v of JStr s \<Rightarrow> Inr (encode s) | _ \<Rightarrow> Inl AttributeError)"

section \<open>hashlib.sha256 and base64.b64encode\<close>

text \<open>SHA-256 as FIPS 180-4 defines it, on 32-bit words. The round constants and the
  initial state are written in decimal.\<close>

type_synonym w32 = "32 word"
type_synonym hstate = "w32 \<times> w32 \<times> w32 \<times> w32 \<times> w32 \<times> w32 \<times> w32 \<times> w32"

definition rotr :: "nat \<Rightarrow> w32 \<Rightarrow> w32" where
  "rotr n x = (drop_bit n x) OR (push_bit (32 - n) x)"

definition sha256_k :: "w32 list" where
  "sha256_k = [
   1116352408, 1899447441, 3049323471, 3921009573, 961987163, 1508970993, 2453635748, 2870763221,
   3624381080, 310598401, 607225278, 1426881987, 1925078388, 2162078206, 2614888103, 3248222580,
   3835390401, 4022224774, 264347078, 604807628, 770255983, 1249150122, 1555081692, 1996064986,
   2554220882, 2821834349, 2952996808, 3210313671, 3336571891, 3584528711, 113926993, 338241895,
   666307205, 773529912, 1294757372, 1396182291, 1695183700, 1986661051, 2177026350, 2456956037,
   2730485921, 2820302411, 3259730800, 3345764771, 3516065817, 3600352804, 4094571909, 275423344,
   430227734, 506948616, 659060556, 883997877, 958139571, 1322822218, 1537002063, 1747873779,
   1955562222, 2024104815, 2227730452, 2361852424, 2428436474, 2756734187, 3204031479, 3329325298]"

definition sha256_h0 :: hstate where
  "sha256_h0 = (1779033703, 3144134277, 1013904242, 2773480762,
                1359893119, 2600822924, 528734635, 1541459225)"

definition ssig0 :: "w32 \<Rightarrow> w32" where
  "ssig0 x = rotr 7 x XOR rotr 18 x XOR drop_bit 3 x"

definition ssig1 :: "w32 \<Rightarrow> w32" where
  "ssig1 x = rotr 17 x XOR rotr 19 x XOR drop_bit 10 x"

definition bsig0 :: "w32 \<Rightarrow> w32" where
  "bsig0 x = rotr 2 x XOR rotr 13 x XOR rotr 22 x"

definition bsig1 :: "w32 \<Rightarrow> w32" where
  "bsig1 x = rotr 6 x XOR rotr 11 x XOR rotr 25 x"

definition ch :: "w32 \<Rightarrow> w32 \<Rightarrow> w32 \<Rightarrow> w32" where
  "ch x y z = (x AND y) XOR (NOT x AND z)"

definition maj :: "w32 \<Rightarrow> w32 \<Rightarrow> w32 \<Rightarrow> w32" where
  "maj x y z = (x AND y) XOR (x AND z) XOR (y AND z)"

text \<open>The message schedule, newest word first: \<open>extend n\<close> adds \<open>n\<close> words.\<close>

fun extend :: "nat \<Rightarrow> w32 list \<Rightarrow> w32 list" where
  "extend 0 ws = ws"
| "extend (Suc n) ws =
     extend n ((ssig1 (ws ! 1) + ws ! 6 + ssig0 (ws ! 14) + ws ! 15) # ws)"

fun round :: "hstate \<Rightarrow> (w32 \<times> w32) \<Rightarrow> hstate" where
  "round (a, b, c, d, e, f, g, h) (k, w) =
     (let t1 = h + bsig1 e + ch e f g + k + w;
          t2 = bsig0 a + maj a b c
      in (t1 + t2, a, b, c, d + t1, e, f, g))"

fun add_state :: "hstate \<Rightarrow> hstate \<Rightarrow> hstate" where
  "add_state (a, b, c, d, e, f, g, h) (a', b', c', d', e', f', g', h') =
     (a + a', b + b', c + c', d + d', e + e', f + f', g + g', h + h')"

definition compress :: "hstate \<Rightarrow> w32 list \<Rightarrow> hstate" where
  "compress hs block =
     add_state hs (foldl round hs (zip sha256_k (rev (extend 48 (rev block)))))"

definition be32 :: "bytes \<Rightarrow> w32" where
  "be32 bs = foldl (\<lambda>acc b. push_bit 8 acc OR ucast b) 0 bs"

fun chunks :: "nat \<Rightarrow> 'a list \<Rightarrow> 'a list list" where
  "chunks n [] = []"
| "chunks n xs = (if n = 0 then [xs] else take n xs # chunks n (drop n xs))"

definition pad :: "bytes \<Rightarrow> bytes" where
  "pad m = (let l = length m;
                z = (119 - l mod 64) mod 64
            in m @ [0x80] @ replicate z 0 @
               map (\<lambda>i. ucast (drop_bit (8 * (7 - i)) (word_of_nat (8 * l) :: 64 word))) [0..<8])"

definition word_bytes :: "w32 \<Rightarrow> bytes" where
  "word_bytes w = map (\<lambda>i. ucast (drop_bit (8 * (3 - i)) w)) [0..<4]"

fun state_bytes :: "hstate \<Rightarrow> bytes" where
  "state_bytes (a, b, c, d, e, f, g, h) = concat (map word_bytes [a, b, c, d, e, f, g, h])"

definition sha256 :: "bytes \<Rightarrow> bytes" where
  "sha256 m = state_bytes (foldl compress sha256_h0
                 (map (map be32 \<circ> chunks 4) (chunks 64 (pad m))))"

text \<open>\<open>base64.b64encode\<close>: three bytes become four characters of the standard
  alphabet, the last group padded with \<open>=\<close>.\<close>

definition b64_alphabet :: string where
  "b64_alphabet = ''ABCDEFGHIJKLMNOPQRSTUVWXYZabcdefghijklmnopqrstuvwxyz0123456789+/''"

definition b64_char :: "w32 \<Rightarrow> nat \<Rightarrow> char" where
  "b64_char n i = b64_alphabet ! unat (drop_bit (18 - 6 * i) n AND 63)"

definition b64_group :: "byte \<Rightarrow> byte \<Rightarrow> byte \<Rightarrow> w32" where
  "b64_group a b c = push_bit 16 (ucast a) OR push_bit 8 (ucast b) OR ucast c"

fun b64_text :: "bytes \<Rightarrow> string" where
  "b64_text [] = []"
| "b64_text [a] =
     (let n = b64_group a 0 0 in [b64_char n 0, b64_char n 1, CHR ''='', CHR ''=''])"
| "b64_text [a, b] =
     (let n = b64_group a b 0 in [b64_char n 0, b64_char n 1, b64_char n 2, CHR ''=''])"
| "b64_text (a # b # c # rest) =
     (let n = b64_group a b c
      in [b64_char n 0, b64_char n 1, b64_char n 2, b64_char n 3] @ b64_text rest)"

definition b64encode :: "bytes \<Rightarrow> bytes" where
  "b64encode bs = encode (b64_text bs)"

section \<open>External collaborators\<close>

text \<open>
  The blocks of the chain. The class \<open>Block\<close> is not among the source files; the
  ledger reads \<open>height\<close>, \<open>hash\<close>, \<open>transactions\<close> and \<open>merkle_tree\<close> of a block
  and passes the other fields to its constructor. The field \<open>bits\<close> of a block is
  called \<open>block_bits\<close> here, \<open>bits\<close> being the field of the chain.
\<close>

type_synonym clock = nat
type_synonym entropy = nat

record block =
  height :: int
  timestamp :: clock
  block_bits :: int
  nonce :: int
  transactions :: "string list"
  prev_hash :: string
  hash :: string
  merkle_tree :: string

text \<open>
  What the ledger calls and does not define: RIPEMD-160, base58, base64 decoding, the
  ECDSA key and signature operations on NIST384p, \<open>json\<close>, the block encoding, the
  proof-of-work sealing and the Merkle tree. A key object is represented by the bytes
  its \<open>to_string()\<close> returns, so \<open>from_string\<close> is the library's validity check.
  Key generation and signing draw randomness: the draw is an explicit argument. The
  reading of the clock is an explicit argument of the operations that take it.
\<close>

record lib =
  ripemd160 :: "bytes \<Rightarrow> bytes"
  b58encode :: "bytes \<Rightarrow> bytes"
  b64decode :: "bytes \<Rightarrow> error + bytes"
  sk_generate :: "entropy \<Rightarrow> bytes"
  verifying_key_of :: "bytes \<Rightarrow> bytes"
  sk_valid :: "bytes \<Rightarrow> bool"
  vk_valid :: "bytes \<Rightarrow> bool"
  ecdsa_sign :: "bytes \<Rightarrow> entropy \<Rightarrow> bytes \<Rightarrow> bytes"
  json_dumps :: "json \<Rightarrow> string"
  json_loads :: "string \<Rightarrow> error + json"
  block_serialize :: "block \<Rightarrow> string"
  block_deserialize :: "string \<Rightarrow> error + block"
  seal :: "int \<Rightarrow> clock \<Rightarrow> int \<Rightarrow> string list \<Rightarrow> string \<Rightarrow> string \<times> int"
  merkle_root :: "string list \<Rightarrow> string"

definition sk_from_string :: "lib \<Rightarrow> bytes \<Rightarrow> error + bytes" where
  "sk_from_string L b = (if sk_valid L b then Inr b else Inl (LibraryError ''MalformedPointError''))"

definition vk_from_string :: "lib \<Rightarrow> bytes \<Rightarrow> error + bytes" where
  "vk_from_string L b = (if vk_valid L b then Inr b else Inl (LibraryError ''MalformedPointError''))"

text \<open>Sequencing of computations that may raise.\<close>

definition ebind :: "error + 'a \<Rightarrow> ('a \<Rightarrow> error + 'b) \<Rightarrow> error + 'b" where
  "ebind m f = (case m of Inl e \<Rightarrow> Inl e | Inr x \<Rightarrow> f x)"

section \<open>Wallet.py\<close>

record wallet =
  name :: string
  balance :: int
  sk :: bytes
  vk :: bytes
  address :: string

text \<open>\<open>Wallet._create_address\<close>, from \<open>self.verifying_key\<close>. On a fresh hash object
  \<open>update(x)\<close> followed by \<open>digest()\<close> is the hash of \<open>x\<close>.\<close>

definition create_address :: "lib \<Rightarrow> bytes \<Rightarrow> string" where
  "create_address L verifying_key =
     (let vk64 = b64encode verifying_key;
          key_hash = ripemd160 L (sha256 vk64);
          temp = sha256 key_hash;
          checksum = sha256 temp;
          addr = key_hash @ checksum
      in decode (b58encode L addr))"

text \<open>\<open>Wallet.__init__\<close>; \<open>r\<close> is the randomness \<open>SigningKey.generate\<close> draws.\<close>

definition Wallet_init :: "lib \<Rightarrow> entropy \<Rightarrow> string \<Rightarrow> int \<Rightarrow> wallet" where
  "Wallet_init L r nm bal =
     (let skey = sk_generate L r;
          vkey = verifying_key_of L skey
      in \<lparr>name = nm, balance = bal, sk = skey, vk = vkey, address = create_address L vkey\<rparr>)"

definition add_balance :: "int \<Rightarrow> wallet \<Rightarrow> wallet" where
  "add_balance amount w = w\<lparr>balance := balance w + amount\<rparr>"

definition sub_balance :: "int \<Rightarrow> wallet \<Rightarrow> wallet" where
  "sub_balance amount w = w\<lparr>balance := balance w - amount\<rparr>"

text \<open>
  \<open>Wallet.verify_address\<close> is dynamically typed where it matters: the values it
  handles are \<open>None\<close>, \<open>bytes\<close> and \<open>str\<close>. A hash object is the bytes fed to it so
  far; \<open>update\<close> accepts bytes only and returns \<open>None\<close>.
\<close>

datatype pyval = PyNone | PyBytes bytes | PyStr string

definition hasher_update :: "bytes \<Rightarrow> pyval \<Rightarrow> error + bytes" where
  "hasher_update buf v = (case v of PyBytes b \<Rightarrow> Inr (buf @ b) | _ \<Rightarrow> Inl TypeError)"

definition py_add :: "pyval \<Rightarrow> pyval \<Rightarrow> error + pyval" where
  "py_add x y = (case (x, y) of
       (PyBytes a, PyBytes b) \<Rightarrow> Inr (PyBytes (a @ b))
     | (PyStr a, PyStr b) \<Rightarrow> Inr (PyStr (a @ b))
     | _ \<Rightarrow> Inl TypeError)"

definition py_eq :: "pyval \<Rightarrow> pyval \<Rightarrow> bool" where
  "py_eq x y = (x = y)"

text \<open>In the source \<open>key_hash\<close> is bound to the result of \<open>h.update(...)\<close>, not to
  \<open>h.digest()\<close>.\<close>

definition verify_address :: "lib \<Rightarrow> wallet \<Rightarrow> error + bool" where
  "verify_address L w =
     (let vk64 = b64encode (vk w)
      in ebind (hasher_update [] (PyBytes vk64)) (\<lambda>m.
         ebind (hasher_update [] (PyBytes (sha256 m))) (\<lambda>h.
         let key_hash = PyNone
         in ebind (hasher_update [] key_hash) (\<lambda>m.
            let temp = sha256 m
            in ebind (hasher_update [] (PyBytes temp)) (\<lambda>m.
               let checksum = sha256 m
               in ebind (py_add key_hash (PyBytes checksum)) (\<lambda>addr.
                  Inr (py_eq addr (PyStr (address w)))))))))"

definition wallet_dict :: "wallet \<Rightarrow> json" where
  "wallet_dict w = JObj
     [(''name'', JStr (name w)), (''balance'', JInt (balance w)),
      (''sk'', JStr (decode (b64encode (sk w)))),
      (''vk'', JStr (decode (b64encode (vk w)))),
      (''address'', JStr (address w))]"

definition serialize :: "lib \<Rightarrow> wallet \<Rightarrow> string" where
  "serialize L w = json_dumps L (wallet_dict w)"

text \<open>The wallet record is typed: a name or address that is not a JSON string, or a
  balance that is not a JSON integer, has no wallet in the model (the source stores
  such a value unchecked); \<open>as_str\<close> and \<open>as_int\<close> report it.\<close>

definition as_str :: "json \<Rightarrow> error + string" where
  "as_str v = (case v of JStr s \<Rightarrow> Inr s | _ \<Rightarrow> Inl (LibraryError ''untyped value''))"

definition as_int :: "json \<Rightarrow> error + int" where
  "as_int v = (case v of JInt i \<Rightarrow> Inr i | _ \<Rightarrow> Inl (LibraryError ''untyped value''))"

text \<open>\<open>base64.b64decode(v.encode())\<close> then \<open>from_string\<close>, for a field of the record.\<close>

definition key_field :: "lib \<Rightarrow> (lib \<Rightarrow> bytes \<Rightarrow> error + bytes) \<Rightarrow> json \<Rightarrow> string \<Rightarrow> error + bytes" where
  "key_field L from_string data k =
     ebind (getitem data k) (\<lambda>v.
     ebind (json_encode v) (\<lambda>b.
     ebind (b64decode L b) (\<lambda>raw. from_string L raw)))"

text \<open>\<open>Wallet.deserialize\<close>; \<open>r\<close> is drawn by the constructor, whose keys and
  address are then overwritten.\<close>

definition deserialize :: "lib \<Rightarrow> entropy \<Rightarrow> string \<Rightarrow> error + wallet" where
  "deserialize L r raw_data =
     ebind (json_loads L raw_data) (\<lambda>data.
     ebind (getitem data ''name'') (\<lambda>n.
     ebind (getitem data ''balance'') (\<lambda>b.
     ebind (as_str n) (\<lambda>nm.
     ebind (as_int b) (\<lambda>bal.
     let w = Wallet_init L r nm bal
     in ebind (key_field L sk_from_string data ''sk'') (\<lambda>skey.
        ebind (key_field L vk_from_string data ''vk'') (\<lambda>vkey.
        ebind (getitem data ''address'') (\<lambda>a.
        ebind (as_str a) (\<lambda>ad.
        Inr (w\<lparr>sk := skey, vk := vkey, address := ad\<rparr>))))))))))"

section \<open>Blockchain.py: the ledger state\<close>

text \<open>
  The store directory \<open>base_dir\<close> is \<open>None\<close> while the directory does not exist and
  otherwise maps each file name to the text of the file. A write reaches the file at
  once (buffering is not modelled). A file object held in an attribute is \<open>NoFile\<close>
  for Python's \<open>None\<close>, and open or closed otherwise.
\<close>

type_synonym store = "(string \<times> string) list option"

datatype handle = NoFile | OpenFile string | ClosedFile

definition newline :: char where
  "newline = CHR 0x0A"

definition open_w :: "string \<Rightarrow> store \<Rightarrow> error + store" where
  "open_w f st = (case st of
       None \<Rightarrow> Inl (FileNotFoundError f)
     | Some fs \<Rightarrow> Inr (Some (AList.update f [] fs)))"

definition open_a :: "string \<Rightarrow> store \<Rightarrow> error + store" where
  "open_a f st = (case st of
       None \<Rightarrow> Inl (FileNotFoundError f)
     | Some fs \<Rightarrow> (case map_of fs f of
           None \<Rightarrow> Inr (Some (AList.update f [] fs))
         | Some _ \<Rightarrow> Inr st))"

text \<open>A file opened for reading is read in text mode, in which Python turns a
  carriage return followed by a line feed, and a carriage return alone, into one line
  feed.\<close>

fun universal_newlines :: "string \<Rightarrow> string" where
  "universal_newlines [] = []"
| "universal_newlines [c] = (if c = CHR 0x0D then [newline] else [c])"
| "universal_newlines (c # d # ds) =
     (if c = CHR 0x0D \<and> d = newline then newline # universal_newlines ds
      else if c = CHR 0x0D then newline # universal_newlines (d # ds)
      else c # universal_newlines (d # ds))"

definition read_text :: "string \<Rightarrow> store \<Rightarrow> error + string" where
  "read_text f st = (case st of
       None \<Rightarrow> Inl (FileNotFoundError f)
     | Some fs \<Rightarrow> (case map_of fs f of
           None \<Rightarrow> Inl (FileNotFoundError f)
         | Some txt \<Rightarrow> Inr (universal_newlines txt)))"

definition append_text :: "string \<Rightarrow> string \<Rightarrow> store \<Rightarrow> store" where
  "append_text f txt st = (case st of
       None \<Rightarrow> None
     | Some fs \<Rightarrow> Some (AList.update f ((case map_of fs f of None \<Rightarrow> [] | Some old \<Rightarrow> old) @ txt) fs))"

definition handle_write :: "handle \<Rightarrow> string \<Rightarrow> store \<Rightarrow> error + store" where
  "handle_write h txt st = (case h of
       NoFile \<Rightarrow> Inl AttributeError
     | ClosedFile \<Rightarrow> Inl (ValueError ''I/O operation on closed file.'')
     | OpenFile f \<Rightarrow> Inr (append_text f txt st))"

definition handle_close :: "handle \<Rightarrow> error + handle" where
  "handle_close h = (case h of NoFile \<Rightarrow> Inl AttributeError | _ \<Rightarrow> Inr ClosedFile)"

text \<open>\<open>for line in f\<close> with \<open>line.strip('\n')\<close>: the lines of a text that
  \<open>read_text\<close> returned (its line ends are line feeds), without their terminators;
  \<open>f.read().strip('\n')\<close>: such a text without the newlines at its ends.\<close>

fun py_lines :: "string \<Rightarrow> string \<Rightarrow> string list" where
  "py_lines acc [] = (if acc = [] then [] else [acc])"
| "py_lines acc (c # cs) =
     (if c = newline then acc # py_lines [] cs else py_lines (acc @ [c]) cs)"

definition strip_newlines :: "string \<Rightarrow> string" where
  "strip_newlines txt =
     rev (dropWhile (\<lambda>c. c = newline) (rev (dropWhile (\<lambda>c. c = newline) txt)))"

text \<open>The attributes of a \<open>Blockchain\<close> object. \<open>self.height\<close> is \<open>bc_height\<close> here
  (\<open>height\<close> is the field of a block); \<open>self._blocks\<close> is \<open>blocks\<close>. The accounts of
  \<open>address_pool\<close> are made by the class \<open>Address\<close>, which is not among the source
  files.\<close>

record state =
  blocks :: "block list"
  bits :: int
  subsidy :: int
  address_pool :: "(string \<times> wallet) list"
  transaction_pool :: "string list"
  balance_pool :: "(string \<times> string \<times> int) list"
  bc_height :: int
  count :: int
  index :: int
  threshold :: int
  data_file :: handle
  address_file :: handle
  base_dir :: store

text \<open>\<open>Blockchain.__init__\<close>, over the store directory as it is found.\<close>

definition Blockchain_init :: "store \<Rightarrow> state" where
  "Blockchain_init st =
     \<lparr>blocks = [], bits = 15, subsidy = 50, address_pool = [], transaction_pool = [],
      balance_pool = [], bc_height = 0, count = 0, index = 0, threshold = 100,
      data_file = NoFile, address_file = NoFile, base_dir = st\<rparr>"

text \<open>Modelled from the spec: the constructor of the absent class \<open>Address\<close>. An
  account has a name, a balance, a fresh key pair and the address derived from the
  verifying key, which is what \<open>Wallet.__init__\<close> builds.\<close>

definition Address_init :: "lib \<Rightarrow> entropy \<Rightarrow> string \<Rightarrow> int \<Rightarrow> wallet" where
  "Address_init L r nm bal = Wallet_init L r nm bal"

text \<open>Modelled from the spec: the constructor of the absent class \<open>Block\<close> and its
  \<open>set_hash\<close>. The constructor is given the height of the previous block, and a block
  is sealed at the height after it by the sealing collaborator
  \<open>seal(height, timestamp, difficultyBits, transactions, prevHash) -> (hash, nonce)\<close>;
  the Merkle root is computed from the transactions.\<close>

definition Block_init :: "lib \<Rightarrow> int \<Rightarrow> clock \<Rightarrow> int \<Rightarrow> int \<Rightarrow> string list \<Rightarrow> string \<Rightarrow> block" where
  "Block_init L prev_height ts bts n txs prevh =
     \<lparr>height = prev_height + 1, timestamp = ts, block_bits = bts, nonce = n,
      transactions = txs, prev_hash = prevh, hash = [], merkle_tree = merkle_root L txs\<rparr>"

definition set_hash :: "lib \<Rightarrow> block \<Rightarrow> block" where
  "set_hash L b =
     (case seal L (height b) (timestamp b) (block_bits b) (transactions b) (prev_hash b) of
        (h, n) \<Rightarrow> b\<lparr>hash := h, nonce := n\<rparr>)"

subsection \<open>Balances and signatures\<close>

definition have_balance :: "string \<Rightarrow> int \<Rightarrow> state \<Rightarrow> error + bool" where
  "have_balance nm amount s = (case map_of (address_pool s) nm of
       None \<Rightarrow> Inl (KeyError nm)
     | Some w \<Rightarrow> Inr (if balance w \<ge> amount then True else False))"

definition increment_balance :: "string \<Rightarrow> int \<Rightarrow> state \<Rightarrow> error option \<times> state" where
  "increment_balance nm amount s = (case map_of (address_pool s) nm of
       None \<Rightarrow> (Some (KeyError nm), s)
     | Some w \<Rightarrow> (None, s\<lparr>address_pool := AList.update nm (add_balance amount w) (address_pool s)\<rparr>))"

definition decrement_balance :: "string \<Rightarrow> int \<Rightarrow> state \<Rightarrow> error option \<times> state" where
  "decrement_balance nm amount s = (case map_of (address_pool s) nm of
       None \<Rightarrow> (Some (KeyError nm), s)
     | Some w \<Rightarrow> (None, s\<lparr>address_pool := AList.update nm (sub_balance amount w) (address_pool s)\<rparr>))"

definition move_balance :: "string \<Rightarrow> string \<Rightarrow> int \<Rightarrow> state \<Rightarrow> error option \<times> state" where
  "move_balance source dest amount s = (case decrement_balance source amount s of
       (Some e, s1) \<Rightarrow> (Some e, s1)
     | (None, s1) \<Rightarrow> increment_balance dest amount s1)"

definition sign_transaction :: "lib \<Rightarrow> entropy \<Rightarrow> string \<Rightarrow> string \<Rightarrow> state \<Rightarrow> error + string" where
  "sign_transaction L r source tx_data s = (case map_of (address_pool s) source of
       None \<Rightarrow> Inl (KeyError source)
     | Some w \<Rightarrow>
         (let signature = decode (b58encode L (ecdsa_sign L (sk w) r (encode tx_data)))
          in Inr (tx_data @ ''|'' @ signature)))"

definition no_balance_message :: "string \<Rightarrow> string" where
  "no_balance_message source = source @ '' has no enough balance for transaction!!!''"

definition transfer_text :: "string \<Rightarrow> string \<Rightarrow> int \<Rightarrow> string" where
  "transfer_text source dest amount =
     ''from: '' @ source @ '' -- to: '' @ dest @ '' -- amount: '' @ str_int amount"

definition add_transaction ::
  "lib \<Rightarrow> entropy \<Rightarrow> string \<Rightarrow> string \<Rightarrow> int \<Rightarrow> state \<Rightarrow> error option \<times> state" where
  "add_transaction L r source dest amount s = (case have_balance source amount s of
       Inl e \<Rightarrow> (Some e, s)
     | Inr enough \<Rightarrow>
         if \<not> enough then (Some (ValueError (no_balance_message source)), s)
         else (case sign_transaction L r source (transfer_text source dest amount) s of
             Inl e \<Rightarrow> (Some e, s)
           | Inr sign_data \<Rightarrow>
               (None, s\<lparr>transaction_pool := transaction_pool s @ [sign_data],
                         balance_pool := balance_pool s @ [(source, dest, amount)]\<rparr>)))"

subsection \<open>Writing the store\<close>

definition metadata_dict :: "state \<Rightarrow> json" where
  "metadata_dict s = JObj
     [(''bits'', JInt (bits s)), (''subsidy'', JInt (subsidy s)),
      (''height'', JInt (int (length (blocks s)))),
      (''count'', JInt (count s)), (''index'', JInt (index s))]"

text \<open>\<open>save_metadata\<close> makes the directory when it is missing.\<close>

definition save_metadata :: "lib \<Rightarrow> state \<Rightarrow> error option \<times> state" where
  "save_metadata L s =
     (let fs = (case base_dir s of None \<Rightarrow> [] | Some fs \<Rightarrow> fs);
          data = json_dumps L (metadata_dict s)
      in (None, s\<lparr>base_dir := Some (AList.update ''metadata'' (data @ [newline]) fs)\<rparr>))"

definition address_dict :: "string \<Rightarrow> wallet \<Rightarrow> json" where
  "address_dict nm addr = JObj
     [(''name'', JStr nm), (''balance'', JInt (balance addr)),
      (''sk'', JStr (decode (b64encode (sk addr)))),
      (''vk'', JStr (decode (b64encode (vk addr))))]"

definition save_address_data :: "lib \<Rightarrow> wallet \<Rightarrow> state \<Rightarrow> error option \<times> state" where
  "save_address_data L addr s =
     (let data = json_dumps L (address_dict (name addr) addr)
      in case handle_write (address_file s) (data @ [newline]) (base_dir s) of
           Inl e \<Rightarrow> (Some e, s)
         | Inr st \<Rightarrow> (None, s\<lparr>base_dir := st\<rparr>))"

definition save_address_pool_data :: "lib \<Rightarrow> state \<Rightarrow> error option \<times> state" where
  "save_address_pool_data L s = (case handle_close (address_file s) of
       Inl e \<Rightarrow> (Some e, s)
     | Inr h \<Rightarrow>
         (let s1 = s\<lparr>address_file := h\<rparr>
          in case open_w ''address'' (base_dir s1) of
               Inl e \<Rightarrow> (Some e, s1)
             | Inr st \<Rightarrow>
                 (None, s1\<lparr>base_dir := append_text ''address''
                    (concat (map (\<lambda>(nm, addr). json_dumps L (address_dict nm addr) @ [newline])
                       (address_pool s1))) st\<rparr>)))"

definition save_genesis_data :: "lib \<Rightarrow> state \<Rightarrow> error option \<times> state" where
  "save_genesis_data L s = (case open_w ''genesis'' (base_dir s) of
       Inl e \<Rightarrow> (Some e, s)
     | Inr st \<Rightarrow>
         (let s1 = s\<lparr>base_dir := st\<rparr>
          in case blocks s1 of
               [] \<Rightarrow> (Some IndexError, s1)
             | b # _ \<Rightarrow>
                 (None, s1\<lparr>base_dir := append_text ''genesis'' (block_serialize L b @ [newline]) st\<rparr>)))"

text \<open>\<open>save_block_data\<close>: the segment index, the rotation to a new segment file
  when the count has reached a multiple of the threshold, the line, the metadata.\<close>

definition rotate_data_file :: "state \<Rightarrow> error option \<times> state" where
  "rotate_data_file s =
     (if count s \<noteq> 0 \<and> count s mod threshold s = 0
      then (case handle_close (data_file s) of
              Inl e \<Rightarrow> (Some e, s)
            | Inr h \<Rightarrow>
                (let s1 = s\<lparr>data_file := h\<rparr>;
                     f = ''data-'' @ str_int (index s1)
                 in case open_w f (base_dir s1) of
                      Inl e \<Rightarrow> (Some e, s1)
                    | Inr st \<Rightarrow> (None, s1\<lparr>data_file := OpenFile f, base_dir := st\<rparr>)))
      else (None, s))"

definition save_block_data :: "lib \<Rightarrow> block \<Rightarrow> state \<Rightarrow> error option \<times> state" where
  "save_block_data L b s =
     (let data = block_serialize L b
      in if threshold s = 0 then (Some ZeroDivisionError, s)
         else (case rotate_data_file (s\<lparr>index := count s div threshold s\<rparr>) of
                 (Some e, s1) \<Rightarrow> (Some e, s1)
               | (None, s1) \<Rightarrow>
                   (let s2 = s1\<lparr>count := count s1 + 1\<rparr>
                    in case handle_write (data_file s2) (data @ [newline]) (base_dir s2) of
                         Inl e \<Rightarrow> (Some e, s2)
                       | Inr st \<Rightarrow> save_metadata L (s2\<lparr>base_dir := st\<rparr>))))"

subsection \<open>Building the chain\<close>

definition new_block :: "lib \<Rightarrow> clock \<Rightarrow> int \<Rightarrow> string list \<Rightarrow> string \<Rightarrow> state \<Rightarrow> block" where
  "new_block L ts prev_height txs prevh s =
     set_hash L (Block_init L prev_height ts (bits s) 0 txs prevh)"

definition genesis_prev_hash :: string where
  "genesis_prev_hash = decode (b64encode (sha256 []))"

definition new_genesis_block :: "lib \<Rightarrow> entropy \<Rightarrow> clock \<Rightarrow> string \<Rightarrow> state \<Rightarrow> error + block" where
  "new_genesis_block L r ts nm s =
     (let miner_data = ''This is the genesis block!!!''
      in case sign_transaction L r nm miner_data s of
           Inl e \<Rightarrow> Inl e
         | Inr sign_data \<Rightarrow> Inr (new_block L ts (- 1) [sign_data] genesis_prev_hash s))"

definition add_block :: "lib \<Rightarrow> clock \<Rightarrow> string list \<Rightarrow> string \<Rightarrow> state \<Rightarrow> error option \<times> state" where
  "add_block L ts txs nm s =
     (if blocks s = [] then (Some IndexError, s)
      else (let prev_block = last (blocks s);
                nb = new_block L ts (height prev_block) txs (hash prev_block) s
            in (None, s\<lparr>blocks := blocks s @ [nb]\<rparr>)))"

definition create_user :: "lib \<Rightarrow> entropy \<Rightarrow> string \<Rightarrow> state \<Rightarrow> error option \<times> state" where
  "create_user L r nm s =
     (if map_of (address_pool s) nm = None
      then (let addr = Address_init L r nm 0
            in save_address_data L addr
                 (s\<lparr>address_pool := AList.update nm addr (address_pool s)\<rparr>))
      else (None, s))"

text \<open>\<open>new_coinbase_tx_account(transactions, name)\<close>: its only caller passes the
  list object \<open>self.transaction_pool\<close>, so \<open>transactions.append\<close> appends to the
  pool.\<close>

definition reward_text :: "int \<Rightarrow> string \<Rightarrow> string" where
  "reward_text sub nm = ''Reward $'' @ str_int sub @ '' to '' @ nm"

definition new_coinbase_tx_account ::
  "lib \<Rightarrow> entropy \<Rightarrow> clock \<Rightarrow> string \<Rightarrow> state \<Rightarrow> error option \<times> state" where
  "new_coinbase_tx_account L r ts nm s =
     (case sign_transaction L r nm (reward_text (subsidy s) nm) s of
        Inl e \<Rightarrow> (Some e, s)
      | Inr sign_data \<Rightarrow>
          (let s1 = s\<lparr>transaction_pool := transaction_pool s @ [sign_data]\<rparr>
           in case add_block L ts (transaction_pool s1) nm s1 of
                (Some e, s2) \<Rightarrow> (Some e, s2)
              | (None, s2) \<Rightarrow>
                  (case increment_balance nm (subsidy s2) s2 of
                     (Some e, s3) \<Rightarrow> (Some e, s3)
                   | (None, s3) \<Rightarrow> save_block_data L (last (blocks s3)) s3)))"

text \<open>The loop of \<open>fire_transactions\<close> over \<open>self.balance_pool\<close>.\<close>

fun move_all :: "(string \<times> string \<times> int) list \<Rightarrow> state \<Rightarrow> error option \<times> state" where
  "move_all [] s = (None, s)"
| "move_all ((source, dest, amount) # rest) s = (case have_balance source amount s of
       Inl e \<Rightarrow> (Some e, s)
     | Inr enough \<Rightarrow>
         if \<not> enough then (Some (ValueError (no_balance_message source)), s)
         else (case move_balance source dest amount s of
                 (Some e, s1) \<Rightarrow> (Some e, s1)
               | (None, s1) \<Rightarrow> move_all rest s1))"

definition fire_transactions ::
  "lib \<Rightarrow> entropy \<Rightarrow> clock \<Rightarrow> string \<Rightarrow> state \<Rightarrow> error option \<times> state" where
  "fire_transactions L r ts nm s = (case new_coinbase_tx_account L r ts nm s of
       (Some e, s1) \<Rightarrow> (Some e, s1)
     | (None, s1) \<Rightarrow>
         (case move_all (balance_pool s1) s1 of
            (Some e, s2) \<Rightarrow> (Some e, s2)
          | (None, s2) \<Rightarrow>
              (case save_address_pool_data L s2 of
                 (Some e, s3) \<Rightarrow> (Some e, s3)
               | (None, s3) \<Rightarrow> (None, s3\<lparr>transaction_pool := [], balance_pool := []\<rparr>))))"

text \<open>\<open>initialize\<close>; \<open>rk\<close> is drawn for the key of the first account and \<open>rs\<close> for
  the signature of the genesis message.\<close>

definition initialize :: "lib \<Rightarrow> entropy \<Rightarrow> entropy \<Rightarrow> clock \<Rightarrow> string \<Rightarrow> state \<Rightarrow> error option \<times> state" where
  "initialize L rk rs ts nm s = (case open_w ''address'' (base_dir s) of
       Inl e \<Rightarrow> (Some e, s)
     | Inr st1 \<Rightarrow>
         (let s1 = s\<lparr>address_file := OpenFile ''address'', base_dir := st1\<rparr>
          in case open_w ''data-0'' (base_dir s1) of
               Inl e \<Rightarrow> (Some e, s1)
             | Inr st2 \<Rightarrow>
                 (let s2 = s1\<lparr>data_file := OpenFile ''data-0'', base_dir := st2\<rparr>
                  in case create_user L rk nm s2 of
                       (Some e, s3) \<Rightarrow> (Some e, s3)
                     | (None, s3) \<Rightarrow>
                         (case increment_balance nm 50 s3 of
                            (Some e, s4) \<Rightarrow> (Some e, s4)
                          | (None, s4) \<Rightarrow>
                              (case new_genesis_block L rs ts nm s4 of
                                 Inl e \<Rightarrow> (Some e, s4)
                               | Inr genesis_block \<Rightarrow>
                                   (let s5 = s4\<lparr>blocks := blocks s4 @ [genesis_block]\<rparr>
                                    in case save_block_data L genesis_block s5 of
                                         (Some e, s6) \<Rightarrow> (Some e, s6)
                                       | (None, s6) \<Rightarrow>
                                           (case save_metadata L s6 of
                                              (Some e, s7) \<Rightarrow> (Some e, s7)
                                            | (None, s7) \<Rightarrow> save_genesis_data L s7)))))))"

subsection \<open>Reading the store\<close>

definition seq ::
  "(state \<Rightarrow> error option \<times> state) \<Rightarrow> (state \<Rightarrow> error option \<times> state) \<Rightarrow>
   state \<Rightarrow> error option \<times> state" where
  "seq p q s = (case p s of (Some e, s1) \<Rightarrow> (Some e, s1) | (None, s1) \<Rightarrow> q s1)"

text \<open>An attribute assigned from an integer field of a JSON record.\<close>

definition load_field ::
  "json \<Rightarrow> string \<Rightarrow> (int \<Rightarrow> state \<Rightarrow> state) \<Rightarrow> state \<Rightarrow> error option \<times> state" where
  "load_field d k assign s = (case ebind (getitem d k) as_int of
       Inl e \<Rightarrow> (Some e, s)
     | Inr v \<Rightarrow> (None, assign v s))"

definition read_metadata :: "lib \<Rightarrow> state \<Rightarrow> error option \<times> state" where
  "read_metadata L s = (case base_dir s of
       None \<Rightarrow> (None, s)
     | Some _ \<Rightarrow>
         (case ebind (read_text ''metadata'' (base_dir s))
                 (\<lambda>txt. json_loads L (strip_newlines txt)) of
            Inl e \<Rightarrow> (Some e, s)
          | Inr metadata \<Rightarrow>
              seq (load_field metadata ''bits'' (\<lambda>v s. s\<lparr>bits := v\<rparr>))
             (seq (load_field metadata ''subsidy'' (\<lambda>v s. s\<lparr>subsidy := v\<rparr>))
             (seq (load_field metadata ''height'' (\<lambda>v s. s\<lparr>bc_height := v\<rparr>))
             (seq (load_field metadata ''count'' (\<lambda>v s. s\<lparr>count := v\<rparr>))
                  (load_field metadata ''index'' (\<lambda>v s. s\<lparr>index := v\<rparr>))))) s))"

text \<open>One line of the file \<open>address\<close>; \<open>r\<close> is drawn by the constructor.\<close>

definition read_address_line :: "lib \<Rightarrow> entropy \<Rightarrow> string \<Rightarrow> state \<Rightarrow> error option \<times> state" where
  "read_address_line L r line s =
     (case ebind (json_loads L line) (\<lambda>a.
           ebind (getitem a ''name'') (\<lambda>n.
           ebind (getitem a ''balance'') (\<lambda>b.
           ebind (as_str n) (\<lambda>nm.
           ebind (as_int b) (\<lambda>bal.
           let addr = Address_init L r nm bal
           in ebind (key_field L sk_from_string a ''sk'') (\<lambda>skey.
              ebind (key_field L vk_from_string a ''vk'') (\<lambda>vkey.
              Inr (nm, addr\<lparr>sk := skey, vk := vkey\<rparr>)))))))) of
        Inl e \<Rightarrow> (Some e, s)
      | Inr (nm, addr) \<Rightarrow> (None, s\<lparr>address_pool := AList.update nm addr (address_pool s)\<rparr>))"

fun read_address_lines ::
  "lib \<Rightarrow> (nat \<Rightarrow> entropy) \<Rightarrow> nat \<Rightarrow> string list \<Rightarrow> state \<Rightarrow> error option \<times> state" where
  "read_address_lines L rs i [] s = (None, s)"
| "read_address_lines L rs i (line # rest) s = (case read_address_line L (rs i) line s of
       (Some e, s1) \<Rightarrow> (Some e, s1)
     | (None, s1) \<Rightarrow> read_address_lines L rs (Suc i) rest s1)"

definition read_address_pool_data :: "lib \<Rightarrow> (nat \<Rightarrow> entropy) \<Rightarrow> state \<Rightarrow> error option \<times> state" where
  "read_address_pool_data L rs s = (case read_text ''address'' (base_dir s) of
       Inl e \<Rightarrow> (Some e, s)
     | Inr txt \<Rightarrow> read_address_lines L rs 0 (py_lines [] txt) s)"

text \<open>One line of the file \<open>transactions\<close>: the unsigned text of the transfer goes to
  \<open>transaction_pool\<close>, the intent to \<open>balance_pool\<close>.\<close>

definition read_transaction_line :: "lib \<Rightarrow> string \<Rightarrow> state \<Rightarrow> error option \<times> state" where
  "read_transaction_line L line s =
     (case ebind (json_loads L line) (\<lambda>t.
           ebind (getitem t ''source'') (\<lambda>a.
           ebind (getitem t ''dest'') (\<lambda>b.
           ebind (getitem t ''amount'') (\<lambda>c.
           ebind (as_str a) (\<lambda>source.
           ebind (as_str b) (\<lambda>dest.
           ebind (as_int c) (\<lambda>amount. Inr (source, dest, amount)))))))) of
        Inl e \<Rightarrow> (Some e, s)
      | Inr (source, dest, amount) \<Rightarrow>
          (None, s\<lparr>transaction_pool := transaction_pool s @ [transfer_text source dest amount],
                    balance_pool := balance_pool s @ [(source, dest, amount)]\<rparr>))"

fun read_transaction_lines :: "lib \<Rightarrow> string list \<Rightarrow> state \<Rightarrow> error option \<times> state" where
  "read_transaction_lines L [] s = (None, s)"
| "read_transaction_lines L (line # rest) s = (case read_transaction_line L line s of
       (Some e, s1) \<Rightarrow> (Some e, s1)
     | (None, s1) \<Rightarrow> read_transaction_lines L rest s1)"

definition read_transaction_data :: "lib \<Rightarrow> state \<Rightarrow> error option \<times> state" where
  "read_transaction_data L s = (case read_text ''transactions'' (base_dir s) of
       Inl e \<Rightarrow> (Some e, s)
     | Inr txt \<Rightarrow>
         (case read_transaction_lines L (py_lines [] txt) s of
            (Some e, s1) \<Rightarrow> (Some e, s1)
          | (None, s1) \<Rightarrow>
              (case open_w ''transactions'' (base_dir s1) of
                 Inl e \<Rightarrow> (Some e, s1)
               | Inr st \<Rightarrow> (None, s1\<lparr>base_dir := st\<rparr>))))"

definition read_genesis_data :: "lib \<Rightarrow> state \<Rightarrow> error option \<times> state" where
  "read_genesis_data L s =
     (case ebind (read_text ''genesis'' (base_dir s))
             (\<lambda>txt. block_deserialize L (strip_newlines txt)) of
        Inl e \<Rightarrow> (Some e, s)
      | Inr b \<Rightarrow> (None, s\<lparr>blocks := blocks s @ [b]\<rparr>))"

text \<open>\<open>sort_dir.remove(x)\<close>.\<close>

definition py_remove :: "string \<Rightarrow> string list \<Rightarrow> error + string list" where
  "py_remove x xs =
     (if x \<in> set xs then Inr (remove1 x xs)
      else Inl (ValueError ''list.remove(x): x not in list''))"

text \<open>The files \<open>read_blocks_data\<close> reads, in the order in which it reads them:
  \<open>sorted(os.listdir(base_dir))\<close> without the four other files of the store.\<close>

definition segment_files :: "store \<Rightarrow> error + string list" where
  "segment_files st = (case st of
       None \<Rightarrow> Inl (FileNotFoundError [])
     | Some fs \<Rightarrow>
         ebind (py_remove ''genesis'' (sort (map fst fs))) (\<lambda>d1.
         ebind (py_remove ''metadata'' d1) (\<lambda>d2.
         ebind (py_remove ''address'' d2) (\<lambda>d3.
         py_remove ''transactions'' d3))))"

fun read_block_lines :: "lib \<Rightarrow> string list \<Rightarrow> state \<Rightarrow> error option \<times> state" where
  "read_block_lines L [] s = (None, s)"
| "read_block_lines L (line # rest) s = (case block_deserialize L line of
       Inl e \<Rightarrow> (Some e, s)
     | Inr b \<Rightarrow>
         read_block_lines L rest
           (s\<lparr>blocks := blocks s @ [b\<lparr>merkle_tree := merkle_root L (transactions b)\<rparr>]\<rparr>))"

fun read_segments :: "lib \<Rightarrow> string list \<Rightarrow> state \<Rightarrow> error option \<times> state" where
  "read_segments L [] s = (None, s)"
| "read_segments L (file # rest) s = (case read_text file (base_dir s) of
       Inl e \<Rightarrow> (Some e, s)
     | Inr txt \<Rightarrow>
         (case read_block_lines L (py_lines [] txt) s of
            (Some e, s1) \<Rightarrow> (Some e, s1)
          | (None, s1) \<Rightarrow> read_segments L rest s1))"

definition read_blocks_data :: "lib \<Rightarrow> state \<Rightarrow> error option \<times> state" where
  "read_blocks_data L s = (case segment_files (base_dir s) of
       Inl e \<Rightarrow> (Some e, s)
     | Inr sort_dir \<Rightarrow> read_segments L sort_dir s)"

definition open_files :: "state \<Rightarrow> error option \<times> state" where
  "open_files s = (case open_a ''address'' (base_dir s) of
       Inl e \<Rightarrow> (Some e, s)
     | Inr st1 \<Rightarrow>
         (let s1 = s\<lparr>address_file := OpenFile ''address'', base_dir := st1\<rparr>;
              f = ''data-'' @ str_int (index s1)
          in case open_a f (base_dir s1) of
               Inl e \<Rightarrow> (Some e, s1)
             | Inr st2 \<Rightarrow> (None, s1\<lparr>data_file := OpenFile f, base_dir := st2\<rparr>)))"

definition read_blockchain :: "lib \<Rightarrow> (nat \<Rightarrow> entropy) \<Rightarrow> state \<Rightarrow> error option \<times> state" where
  "read_blockchain L rs =
     seq (read_metadata L)
    (seq (read_address_pool_data L rs)
    (seq (read_transaction_data L)
    (seq (read_genesis_data L)
    (seq open_files (read_blocks_data L)))))"

section \<open>Quantities and examples for the statements\<close>

text \<open>The sum of the balances of all accounts.\<close>

definition total_balance :: "state \<Rightarrow> int" where
  "total_balance s = sum_list (map (\<lambda>(nm, w). balance w) (address_pool s))"

text \<open>Two states agree on the ledger: the chain, the accounts, both pools and the
  constants; only the counters, the file objects and the store may differ.\<close>

definition same_ledger :: "state \<Rightarrow> state \<Rightarrow> bool" where
  "same_ledger s s' \<longleftrightarrow>
     blocks s' = blocks s \<and> address_pool s' = address_pool s \<and>
     transaction_pool s' = transaction_pool s \<and> balance_pool s' = balance_pool s \<and>
     subsidy s' = subsidy s \<and> bits s' = bits s \<and> threshold s' = threshold s"

text \<open>A stand-in for the collaborators, to run the model on examples: a printer for
  JSON values, a parser that knows the record of the example wallet, and simple
  functions for the rest.\<close>

primrec show_json :: "json \<Rightarrow> string" where
  "show_json (JStr s) = CHR 0x22 # s @ [CHR 0x22]"
| "show_json (JInt i) = str_int i"
| "show_json (JObj kvs) =
     ''{'' @ concat (map (\<lambda>(k, v). CHR 0x22 # k @ [CHR 0x22] @ '': '' @ v @ '', '')
                     (map (map_prod id show_json) kvs)) @ ''}''"
| "show_json JOther = ''null''"

definition example_wallet :: wallet where
  "example_wallet = \<lparr>name = ''A'', balance = 50, sk = [1], vk = [1, 1], address = ''addr-A''\<rparr>"

definition test_lib :: lib where
  "test_lib =
     \<lparr>ripemd160 = take 20,
      b58encode = id,
      b64decode = (\<lambda>b. if b = b64encode [1] then Inr [1]
                         else if b = b64encode [1, 1] then Inr [1, 1]
                         else Inl (LibraryError ''binascii.Error'')),
      sk_generate = (\<lambda>r. [of_nat r]),
      verifying_key_of = (\<lambda>k. k @ k),
      sk_valid = (\<lambda>b. length b = 1),
      vk_valid = (\<lambda>b. length b = 2),
      ecdsa_sign = (\<lambda>k r m. k @ [of_nat r]),
      json_dumps = show_json,
      json_loads = (\<lambda>txt. if txt = show_json (wallet_dict example_wallet)
                             then Inr (wallet_dict example_wallet)
                             else Inl (LibraryError ''JSONDecodeError'')),
      block_serialize = hash,
      block_deserialize = (\<lambda>txt. Inl (LibraryError ''bad block'')),
      seal = (\<lambda>h ts bts txs p. (''hash-'' @ str_int h, 0)),
      merkle_root = concat\<rparr>"

definition example_block :: block where
  "example_block = \<lparr>height = 0, timestamp = 0, block_bits = 15, nonce = 0,
     transactions = [''genesis''], prev_hash = genesis_prev_hash, hash = ''hash-0'',
     merkle_tree = ''genesis''\<rparr>"

definition example_state :: state where
  "example_state =
     \<lparr>blocks = [example_block], bits = 15, subsidy = 50,
      address_pool = [(''A'', example_wallet),
                      (''B'', \<lparr>name = ''B'', balance = 0, sk = [2], vk = [2, 2], address = ''addr-B''\<rparr>)],
      transaction_pool = [], balance_pool = [], bc_height = 0, count = 1, index = 0,
      threshold = 100, data_file = OpenFile ''data-0'', address_file = OpenFile ''address'',
      base_dir = Some [(''address'', []), (''data-0'', []), (''metadata'', []), (''genesis'', [])]\<rparr>"

text \<open>A run of the ledger: \<open>A\<close> is given 50 at initialisation and queues two
  transfers of 40 to \<open>B\<close>, each covered by the balance of 50; then \<open>B\<close> settles.\<close>

definition failed_settlement :: "lib \<Rightarrow> error option \<times> state" where
  "failed_settlement L =
     seq (initialize L 1 2 0 ''A'')
    (seq (create_user L 3 ''B'')
    (seq (add_transaction L 4 ''A'' ''B'' 40)
    (seq (add_transaction L 5 ''A'' ''B'' 40)
         (fire_transactions L 6 1 ''B''))))
     (Blockchain_init (Some []))"

text \<open>The calls that work on a ledger after its initialisation; \<open>perform\<close> gives
  the state a call leaves, whether it returns or raises.\<close>

datatype call =
    CreateUser entropy string
  | AddTransaction entropy string string int
  | FireTransactions entropy clock string

fun perform :: "lib \<Rightarrow> call \<Rightarrow> state \<Rightarrow> state" where
  "perform L (CreateUser r nm) s = snd (create_user L r nm s)"
| "perform L (AddTransaction r source dest amount) s = snd (add_transaction L r source dest amount s)"
| "perform L (FireTransactions r ts nm) s = snd (fire_transactions L r ts nm s)"

definition perform_all :: "lib \<Rightarrow> call list \<Rightarrow> state \<Rightarrow> state" where
  "perform_all L calls s = foldl (\<lambda>s c. perform L c s) s calls"

text \<open>Each block after the first has as its previous hash the hash of the block
  before it, and the height after it; \<open>chain_from g\<close>: such a chain with first block
  \<open>g\<close>.\<close>

fun linked :: "block list \<Rightarrow> bool" where
  "linked [] = True"
| "linked [b] = True"
| "linked (a # b # bs) =
     (prev_hash b = hash a \<and> height b = height a + 1 \<and> linked (b # bs))"

definition chain_from :: "block \<Rightarrow> block list \<Rightarrow> bool" where
  "chain_from g bs \<longleftrightarrow> bs \<noteq> [] \<and> hd bs = g \<and> linked bs"

text \<open>\<open>initialize\<close> called twice on one ledger, and a list of calls for the
  examples.\<close>

definition initialized_twice :: "error option \<times> state" where
  "initialized_twice =
     seq (initialize test_lib 1 2 0 ''A'') (initialize test_lib 3 4 1 ''A'')
       (Blockchain_init (Some []))"

definition example_calls :: "call list" where
  "example_calls = [CreateUser 3 ''B'', AddTransaction 4 ''A'' ''B'' 40,
     FireTransactions 6 1 ''B'', FireTransactions 7 2 ''A'']"

section \<open>Checked values of the hash and the encoder\<close>

definition empty_digest :: bytes where
  "empty_digest =
     [227, 176, 196, 66, 152, 252, 28, 20, 154, 251, 244, 200, 153, 111, 185, 36,
      39, 174, 65, 228, 100, 155, 147, 76, 164, 149, 153, 27, 120, 82, 184, 85]"

lemma empty_blocks:
  "map (map be32 \<circ> chunks 4) (chunks 64 (pad [])) = [2147483648 # replicate 15 0]"
  by code_simp

lemma empty_compress:
  "compress sha256_h0 (2147483648 # replicate 15 0) =
     (3820012610, 2566659092, 2600203464, 2574235940, 665731556, 1687917388, 2761267483, 2018687061)"
  by code_simp

lemma empty_state_bytes:
  "state_bytes (3820012610, 2566659092, 2600203464, 2574235940,
                665731556, 1687917388, 2761267483, 2018687061) = empty_digest"
  by code_simp

lemma sha256_empty: "sha256 [] = empty_digest"
  by (simp only: sha256_def empty_blocks foldl.simps empty_compress empty_state_bytes)

lemma b64_text_empty_digest:
  "b64_text empty_digest = ''47DEQpj8HBSa+/TImW+5JCeuQeRkm5NMpJWZG3hSuFU=''"
  by code_simp

lemma b64_text_zero_digest:
  "b64_text (replicate 32 0) = ''AAAAAAAAAAAAAAAAAAAAAAAAAAAAAAAAAAAAAAAAAAA=''"
  by code_simp

lemma decode_encode: "decode (encode s) = s"
  by (simp add: decode_def encode_def unat_of_nat map_idI)

section \<open>Balances under the ledger operations\<close>

lemma sum_list_update:
  "map_of ps k = Some w \<Longrightarrow>
   sum_list (map (\<lambda>(nm, x). balance x) (AList.update k w' ps)) =
   sum_list (map (\<lambda>(nm, x). balance x) ps) - balance w + balance w'"
  by (induction ps) (auto split: if_splits)

lemma increment_balance_total:
  "increment_balance nm a s = (None, s') \<Longrightarrow> total_balance s' = total_balance s + a"
  by (auto simp: increment_balance_def total_balance_def add_balance_def sum_list_update
      split: option.splits)

lemma decrement_balance_total:
  "decrement_balance nm a s = (None, s') \<Longrightarrow> total_balance s' = total_balance s - a"
  by (auto simp: decrement_balance_def total_balance_def sub_balance_def sum_list_update
      split: option.splits)

lemma move_balance_total:
  "move_balance src dst a s = (None, s') \<Longrightarrow> total_balance s' = total_balance s"
  by (auto simp: move_balance_def split: prod.splits option.splits
      dest!: decrement_balance_total increment_balance_total)

lemma move_all_total:
  "move_all xs s = (None, s') \<Longrightarrow> total_balance s' = total_balance s"
proof (induction xs arbitrary: s)
  case Nil
  then show ?case by simp
next
  case (Cons x xs)
  obtain src dst a where x: "x = (src, dst, a)" by (cases x)
  from Cons.prems x obtain s1 where
    m: "move_balance src dst a s = (None, s1)" and r: "move_all xs s1 = (None, s')"
    by (auto split: sum.splits if_splits prod.splits option.splits)
  from Cons.IH [OF r] move_balance_total [OF m] show ?case by simp
qed

text \<open>What the balance operations leave untouched.\<close>

lemma increment_balance_frame:
  "increment_balance nm a s = (r, s') \<Longrightarrow> s' = s\<lparr>address_pool := address_pool s'\<rparr>"
  by (auto simp: increment_balance_def split: option.splits)

lemma decrement_balance_frame:
  "decrement_balance nm a s = (r, s') \<Longrightarrow> s' = s\<lparr>address_pool := address_pool s'\<rparr>"
  by (auto simp: decrement_balance_def split: option.splits)

lemma move_balance_frame:
  "move_balance src dst a s = (r, s') \<Longrightarrow> s' = s\<lparr>address_pool := address_pool s'\<rparr>"
  unfolding move_balance_def
  by (auto split: prod.splits option.splits dest!: decrement_balance_frame increment_balance_frame)
    (metis state.surjective state.update_convs(4))+


lemma move_all_frame:
  "move_all xs s = (r, s') \<Longrightarrow> s' = s\<lparr>address_pool := address_pool s'\<rparr>"
proof (induction xs arbitrary: s)
  case Nil
  then show ?case by simp
next
  case (Cons x xs)
  obtain src dst a where x: "x = (src, dst, a)" by (cases x)
  show ?case
  proof (cases "move_balance src dst a s")
    case (Pair e s1)
    note f1 = move_balance_frame [OF Pair]
    show ?thesis
    proof (cases "have_balance src a s = Inr True \<and> e = None")
      case True
      with Cons.prems x Pair have "move_all xs s1 = (r, s')" by simp
      from Cons.IH [OF this] f1 show ?thesis
        by (metis state.surjective state.update_convs(4))
    next
      case False
      with Cons.prems x Pair f1 show ?thesis
        by (auto split: sum.splits if_splits option.splits)
    qed
  qed
qed

lemma move_all_stops:
  assumes "move_all pre s = (None, s2)" and "have_balance source amount s2 = Inr False"
  shows "move_all (pre @ (source, dest, amount) # post) s =
           (Some (ValueError (no_balance_message source)), s2)"
  using assms
proof (induction pre arbitrary: s)
  case Nil
  then show ?case by simp
next
  case (Cons x pre)
  obtain src dst a where x: "x = (src, dst, a)" by (cases x)
  from Cons.prems(1) x obtain s1 where
    h: "have_balance src a s = Inr True" and
    m: "move_balance src dst a s = (None, s1)" and r: "move_all pre s1 = (None, s2)"
    by (auto split: sum.splits if_splits prod.splits option.splits)
  from Cons.IH [OF r Cons.prems(2)] h m x show ?case by simp
qed

lemma same_ledger_refl: "same_ledger s s"
  by (simp add: same_ledger_def)

lemma same_ledger_trans: "same_ledger s s1 \<Longrightarrow> same_ledger s1 s2 \<Longrightarrow> same_ledger s s2"
  by (simp add: same_ledger_def)

lemma save_metadata_frame: "save_metadata L s = (r, s') \<Longrightarrow> r = None \<and> same_ledger s s'"
  by (auto simp: save_metadata_def Let_def same_ledger_def)

lemma rotate_data_file_frame: "rotate_data_file s = (r, s') \<Longrightarrow> same_ledger s s'"
  by (auto simp: rotate_data_file_def Let_def same_ledger_def split: if_splits sum.splits)

lemma save_block_data_frame:
  assumes "save_block_data L b s = (r, s')"
  shows "same_ledger s s'"
proof (cases "threshold s = 0")
  case True
  with assms show ?thesis by (simp add: save_block_data_def same_ledger_def)
next
  case False
  obtain r1 s1 where rot: "rotate_data_file (s\<lparr>index := count s div threshold s\<rparr>) = (r1, s1)"
    by (cases "rotate_data_file (s\<lparr>index := count s div threshold s\<rparr>)")
  from rotate_data_file_frame [OF rot] have f1: "same_ledger s s1"
    by (simp add: same_ledger_def)
  show ?thesis
  proof (cases r1)
    case (Some e)
    with assms False rot f1 show ?thesis by (simp add: save_block_data_def)
  next
    case None
    let ?s2 = "s1\<lparr>count := count s1 + 1\<rparr>"
    have f2: "same_ledger s ?s2" using f1 by (simp add: same_ledger_def)
    show ?thesis
    proof (cases "handle_write (data_file ?s2) (block_serialize L b @ [newline]) (base_dir ?s2)")
      case (Inl e)
      with assms False rot None have "s' = ?s2" by (simp add: save_block_data_def Let_def)
      with f2 show ?thesis by simp
    next
      case (Inr st)
      with assms False rot None
      have "save_metadata L (?s2\<lparr>base_dir := st\<rparr>) = (r, s')"
        by (simp add: save_block_data_def Let_def)
      from save_metadata_frame [OF this] f2 show ?thesis by (simp add: same_ledger_def)
    qed
  qed
qed


lemma new_coinbase_tx_account_ok:
  assumes "new_coinbase_tx_account L r ts nm s = (None, s1)"
  shows "\<exists>sign_data w.
     sign_transaction L r nm (reward_text (subsidy s) nm) s = Inr sign_data \<and>
     map_of (address_pool s) nm = Some w \<and>
     blocks s \<noteq> [] \<and>
     blocks s1 = blocks s @ [new_block L ts (height (last (blocks s)))
        (transaction_pool s @ [sign_data]) (hash (last (blocks s))) s] \<and>
     address_pool s1 = AList.update nm (add_balance (subsidy s) w) (address_pool s) \<and>
     transaction_pool s1 = transaction_pool s @ [sign_data] \<and>
     balance_pool s1 = balance_pool s \<and> subsidy s1 = subsidy s"
proof -
  from assms obtain sd where sd: "sign_transaction L r nm (reward_text (subsidy s) nm) s = Inr sd"
    by (auto simp: new_coinbase_tx_account_def split: sum.splits)
  then obtain w where w: "map_of (address_pool s) nm = Some w"
    by (auto simp: sign_transaction_def split: option.splits)
  let ?s1 = "s\<lparr>transaction_pool := transaction_pool s @ [sd]\<rparr>"
  from assms sd have ne: "blocks s \<noteq> []"
    by (auto simp: new_coinbase_tx_account_def add_block_def Let_def split: if_splits)
  let ?nb = "new_block L ts (height (last (blocks s))) (transaction_pool s @ [sd])
               (hash (last (blocks s))) ?s1"
  let ?s2 = "?s1\<lparr>blocks := blocks s @ [?nb]\<rparr>"
  have ab: "add_block L ts (transaction_pool ?s1) nm ?s1 = (None, ?s2)"
    using ne by (simp add: add_block_def Let_def)
  let ?s3 = "?s2\<lparr>address_pool := AList.update nm (add_balance (subsidy s) w) (address_pool s)\<rparr>"
  have ib: "increment_balance nm (subsidy ?s2) ?s2 = (None, ?s3)"
    using w by (simp add: increment_balance_def)
  from assms sd ab ib have "save_block_data L (last (blocks ?s3)) ?s3 = (None, s1)"
    by (simp add: new_coinbase_tx_account_def Let_def)
  from save_block_data_frame [OF this] have "same_ledger ?s3 s1" .
  moreover have "?nb = new_block L ts (height (last (blocks s))) (transaction_pool s @ [sd])
               (hash (last (blocks s))) s"
    by (simp add: new_block_def)
  ultimately show ?thesis using sd w ne by (simp add: same_ledger_def)
qed

lemma save_address_pool_data_frame:
  "save_address_pool_data L s = (r, s') \<Longrightarrow> same_ledger s s'"
  by (auto simp: save_address_pool_data_def Let_def same_ledger_def split: sum.splits)

lemma total_balance_cong: "address_pool s' = address_pool s \<Longrightarrow> total_balance s' = total_balance s"
  by (simp add: total_balance_def)

lemmas run_defs =
  fire_transactions_def new_coinbase_tx_account_def sign_transaction_def add_block_def
  increment_balance_def decrement_balance_def move_balance_def have_balance_def
  save_block_data_def rotate_data_file_def save_metadata_def save_address_pool_data_def
  handle_write_def handle_close_def open_w_def append_text_def new_block_def set_hash_def
  Block_init_def add_balance_def sub_balance_def add_transaction_def
  example_state_def example_wallet_def example_block_def test_lib_def Let_def

lemmas run_defs2 = seq_def initialize_def create_user_def save_address_data_def
  save_genesis_data_def new_genesis_block_def Blockchain_init_def str_int_def str_nat.simps
  fire_transactions_def new_coinbase_tx_account_def sign_transaction_def add_block_def
  increment_balance_def decrement_balance_def move_balance_def have_balance_def
  save_block_data_def rotate_data_file_def save_metadata_def save_address_pool_data_def
  handle_write_def handle_close_def open_w_def append_text_def new_block_def 
  add_balance_def sub_balance_def add_transaction_def Let_def

lemma Address_init_sel:
  "name (Address_init L r nm bal) = nm" "balance (Address_init L r nm bal) = bal"
  "sk (Address_init L r nm bal) = sk_generate L r"
  "vk (Address_init L r nm bal) = verifying_key_of L (sk_generate L r)"
  "address (Address_init L r nm bal) = create_address L (verifying_key_of L (sk_generate L r))"
  by (simp_all add: Address_init_def Wallet_init_def Let_def)

section \<open>The claims\<close>

text \<open>
  Claim C1. The two pools stay equally long at every point outside a settlement,
  also after a settlement that fails. The code does not keep this: \<open>fire_transactions\<close>
  appends the signed reward to \<open>transaction_pool\<close> before the transfers are applied, and
  a transfer that fails the balance check leaves it there. In the run
  \<open>failed_settlement\<close> the settlement raises and the pools have 3 and 2 entries.
\<close>

theorem failed_settlement_pools:
  "fst (failed_settlement L) = Some (ValueError (no_balance_message ''A'')) \<and>
   length (transaction_pool (snd (failed_settlement L))) = 3 \<and>
   length (balance_pool (snd (failed_settlement L))) = 2"
  by (simp add: failed_settlement_def run_defs2 Address_init_sel)

text \<open>
  Claim C2. The segment files are read in ascending order of the number in their
  names. The code reads them in the order of \<open>sorted\<close> on the names, which puts
  \<open>data-10\<close> before \<open>data-2\<close>.
\<close>

theorem segment_files_lexicographic:
  "segment_files (Some [(''metadata'', []), (''address'', []), (''genesis'', []),
      (''transactions'', []), (''data-0'', []), (''data-1'', []), (''data-2'', []),
      (''data-10'', [])]) = Inr [''data-0'', ''data-1'', ''data-10'', ''data-2'']"
  by (simp add: segment_files_def py_remove_def ebind_def)

text \<open>
  Claim C4. \<open>verify_address\<close> returns true on an account just created. In the code
  it returns nothing: for every wallet it raises \<open>TypeError\<close>, because \<open>key_hash\<close> is
  \<open>None\<close> when it is fed to the second hash.
\<close>

theorem verify_address_raises:
  "verify_address L (Wallet_init L r nm bal) = Inl TypeError"
  by (simp add: verify_address_def hasher_update_def ebind_def Let_def)

text \<open>
  Claim C6. When the balance of the source account is less than the amount,
  \<open>add_transaction\<close> raises the \<open>ValueError\<close> of an insufficient balance and the
  state, both pools included, is what it was.
\<close>

theorem add_transaction_insufficient:
  assumes "map_of (address_pool s) source = Some w" and "balance w < amount"
  shows "add_transaction L r source dest amount s =
           (Some (ValueError (no_balance_message source)), s)"
  using assms by (simp add: add_transaction_def have_balance_def)

theorem add_transaction_insufficient_witness:
  "map_of (address_pool example_state) ''A'' = Some example_wallet \<and>
   balance example_wallet < 80 \<and>
   add_transaction test_lib 4 ''A'' ''B'' 80 example_state =
     (Some (ValueError (no_balance_message ''A'')), example_state)"
proof -
  have h1: "map_of (address_pool example_state) ''A'' = Some example_wallet"
    by (simp add: example_state_def)
  have h2: "balance example_wallet < 80" by (simp add: example_wallet_def)
  from add_transaction_insufficient [OF h1 h2] h1 h2 show ?thesis by simp
qed

text \<open>
  Claim C10. For a source that has an account, \<open>add_transaction\<close> raises exactly
  when the balance is below the amount; there is no check of the sign of the amount, so
  every amount up to the balance, the negative ones and zero included, is signed and
  appended to both pools.
\<close>

theorem add_transaction_raises_iff:
  assumes "map_of (address_pool s) source = Some w"
  shows "(fst (add_transaction L r source dest amount s) \<noteq> None \<longleftrightarrow> balance w < amount) \<and>
         (amount \<le> balance w \<longrightarrow>
            (\<exists>sign_data.
               sign_transaction L r source (transfer_text source dest amount) s = Inr sign_data \<and>
               add_transaction L r source dest amount s =
                 (None, s\<lparr>transaction_pool := transaction_pool s @ [sign_data],
                           balance_pool := balance_pool s @ [(source, dest, amount)]\<rparr>)))"
  using assms
  by (auto simp add: add_transaction_def have_balance_def sign_transaction_def Let_def)

theorem add_transaction_raises_iff_witness:
  "map_of (address_pool example_state) ''A'' = Some example_wallet \<and>
   (- 5) \<le> balance example_wallet \<and>
   fst (add_transaction test_lib 4 ''A'' ''B'' (- 5) example_state) = None \<and>
   balance_pool (snd (add_transaction test_lib 4 ''A'' ''B'' (- 5) example_state)) =
     [(''A'', ''B'', - 5)] \<and>
   length (transaction_pool (snd (add_transaction test_lib 4 ''A'' ''B'' (- 5) example_state))) = 1"
proof -
  have h1: "map_of (address_pool example_state) ''A'' = Some example_wallet"
    by (simp add: example_state_def)
  have h2: "(- 5) \<le> balance example_wallet" by (simp add: example_wallet_def)
  from add_transaction_raises_iff [OF h1, of test_lib 4 "''B''" "- 5"] h2
  obtain sd where "add_transaction test_lib 4 ''A'' ''B'' (- 5) example_state =
      (None, example_state\<lparr>transaction_pool := transaction_pool example_state @ [sd],
         balance_pool := balance_pool example_state @ [(''A'', ''B'', - 5)]\<rparr>)"
    by blast
  then show ?thesis using h1 h2 by (simp add: example_state_def)
qed

lemma encode_decode_b64: "encode (decode (b64encode x)) = b64encode x"
  by (simp add: b64encode_def decode_encode)

lemma key_field_roundtrip:
  assumes "map_of kvs k = Some (JStr (decode (b64encode x)))"
    and "b64decode L (b64encode x) = Inr x" and "from_string L x = Inr x"
  shows "key_field L from_string (JObj kvs) k = Inr x"
  using assms
  by (simp add: key_field_def getitem_def json_encode_def ebind_def encode_decode_b64)

text \<open>
  Claim C9. Deserializing the serialization of a wallet gives the wallet back:
  name, balance, both keys and the address. The hypotheses are the contracts of the
  libraries on the values at hand (\<open>json.loads\<close> inverts \<open>json.dumps\<close>, \<open>b64decode\<close>
  inverts \<open>b64encode\<close>) and that the keys of the wallet are keys of the curve.
\<close>

theorem deserialize_serialize:
  assumes "json_loads L (json_dumps L (wallet_dict w)) = Inr (wallet_dict w)"
    and "b64decode L (b64encode (sk w)) = Inr (sk w)"
    and "b64decode L (b64encode (vk w)) = Inr (vk w)"
    and "sk_valid L (sk w)" and "vk_valid L (vk w)"
  shows "deserialize L r (serialize L w) = Inr w"
proof -
  have s: "key_field L sk_from_string (wallet_dict w) ''sk'' = Inr (sk w)"
    unfolding wallet_dict_def
    by (rule key_field_roundtrip) (simp_all add: assms sk_from_string_def)
  have v: "key_field L vk_from_string (wallet_dict w) ''vk'' = Inr (vk w)"
    unfolding wallet_dict_def
    by (rule key_field_roundtrip) (simp_all add: assms vk_from_string_def)
  have g: "getitem (wallet_dict w) ''name'' = Inr (JStr (name w))"
    "getitem (wallet_dict w) ''balance'' = Inr (JInt (balance w))"
    "getitem (wallet_dict w) ''address'' = Inr (JStr (address w))"
    by (simp_all add: wallet_dict_def getitem_def)
  show ?thesis
    by (simp add: deserialize_def serialize_def assms(1) ebind_def g s v as_str_def as_int_def
        Wallet_init_def Let_def)
qed

theorem deserialize_serialize_witness:
  "json_loads test_lib (json_dumps test_lib (wallet_dict example_wallet)) =
     Inr (wallet_dict example_wallet) \<and>
   b64decode test_lib (b64encode (sk example_wallet)) = Inr (sk example_wallet) \<and>
   b64decode test_lib (b64encode (vk example_wallet)) = Inr (vk example_wallet) \<and>
   sk_valid test_lib (sk example_wallet) \<and> vk_valid test_lib (vk example_wallet) \<and>
   deserialize test_lib 9 (serialize test_lib example_wallet) = Inr example_wallet"
proof -
  have h1: "json_loads test_lib (json_dumps test_lib (wallet_dict example_wallet)) =
     Inr (wallet_dict example_wallet)" by (simp add: test_lib_def)
  have h2: "b64decode test_lib (b64encode (sk example_wallet)) = Inr (sk example_wallet)"
    by (simp add: test_lib_def example_wallet_def)
  have h3: "b64decode test_lib (b64encode (vk example_wallet)) = Inr (vk example_wallet)"
    by code_simp
  have h4: "sk_valid test_lib (sk example_wallet)" by (simp add: test_lib_def example_wallet_def)
  have h5: "vk_valid test_lib (vk example_wallet)" by (simp add: test_lib_def example_wallet_def)
  from deserialize_serialize [OF h1 h2 h3 h4 h5, of 9] h1 h2 h3 h4 h5 show ?thesis by simp
qed

text \<open>
  Claim C7. After a settlement that succeeds, the balances of all accounts sum to
  what they summed to before plus the subsidy: every transfer takes from one account
  what it gives to another, and only the reward of the miner is new.
\<close>

theorem fire_transactions_total_balance:
  assumes "fire_transactions L r ts nm s = (None, s')"
  shows "total_balance s' = total_balance s + subsidy s"
proof -
  from assms obtain s1 s2 s3 where
    c: "new_coinbase_tx_account L r ts nm s = (None, s1)" and
    m: "move_all (balance_pool s1) s1 = (None, s2)" and
    a: "save_address_pool_data L s2 = (None, s3)" and
    e: "s' = s3\<lparr>transaction_pool := [], balance_pool := []\<rparr>"
    by (auto simp: fire_transactions_def split: prod.splits option.splits)
  from new_coinbase_tx_account_ok [OF c] obtain w where
    w: "map_of (address_pool s) nm = Some w" and
    p: "address_pool s1 = AList.update nm (add_balance (subsidy s) w) (address_pool s)"
    by blast
  have "total_balance s1 = total_balance s + subsidy s"
    using w p by (simp add: total_balance_def sum_list_update add_balance_def)
  moreover have "total_balance s2 = total_balance s1" by (rule move_all_total [OF m])
  moreover have "total_balance s3 = total_balance s2"
    using save_address_pool_data_frame [OF a] by (simp add: total_balance_def same_ledger_def)
  moreover have "total_balance s' = total_balance s3" using e by (simp add: total_balance_def)
  ultimately show ?thesis by simp
qed


theorem fire_transactions_total_balance_witness:
  "fst (fire_transactions test_lib 6 1 ''B''
          (example_state\<lparr>transaction_pool := [''t''], balance_pool := [(''A'', ''B'', 40)]\<rparr>)) = None \<and>
   total_balance (snd (fire_transactions test_lib 6 1 ''B''
          (example_state\<lparr>transaction_pool := [''t''], balance_pool := [(''A'', ''B'', 40)]\<rparr>))) = 100"
proof -
  let ?s = "example_state\<lparr>transaction_pool := [''t''], balance_pool := [(''A'', ''B'', 40)]\<rparr>"
  have f: "fst (fire_transactions test_lib 6 1 ''B'' ?s) = None"
    by (simp add: run_defs)
  have h: "fire_transactions test_lib 6 1 ''B'' ?s =
      (None, snd (fire_transactions test_lib 6 1 ''B'' ?s))"
    by (rule prod_eqI) (simp_all only: f fst_conv snd_conv)
  have v: "total_balance ?s + subsidy ?s = 100"
    by (simp add: total_balance_def example_state_def example_wallet_def)
  have "total_balance (snd (fire_transactions test_lib 6 1 ''B'' ?s)) = 100"
    by (rule trans [OF fire_transactions_total_balance [OF h] v])
  with f show ?thesis by (rule conjI)
qed

text \<open>
  Claim C3. When a transfer fails the balance check at the moment it is applied (the
  reward step has succeeded and the transfers before it have been applied),
  \<open>fire_transactions\<close> raises the \<open>ValueError\<close> of an insufficient balance, and in
  the state it leaves the chain is one block longer than before the call; that state
  has the chain and the store of the state right after the block was appended and
  written, in which the miner holds the subsidy on top of the old balance.
\<close>

theorem fire_transactions_fails_after_commit:
  assumes "new_coinbase_tx_account L r ts nm s = (None, s1)"
    and "balance_pool s = pre @ (source, dest, amount) # post"
    and "move_all pre s1 = (None, s2)"
    and "have_balance source amount s2 = Inr False"
  shows "fire_transactions L r ts nm s = (Some (ValueError (no_balance_message source)), s2) \<and>
         length (blocks s2) = length (blocks s) + 1 \<and>
         blocks s2 = blocks s1 \<and> base_dir s2 = base_dir s1 \<and>
         (\<exists>w. map_of (address_pool s) nm = Some w \<and>
              map_of (address_pool s1) nm = Some (w\<lparr>balance := balance w + subsidy s\<rparr>))"
proof -
  from new_coinbase_tx_account_ok [OF assms(1)] obtain w where
    w: "map_of (address_pool s) nm = Some w" and
    b: "length (blocks s1) = length (blocks s) + 1" and
    p: "address_pool s1 = AList.update nm (add_balance (subsidy s) w) (address_pool s)" and
    bp: "balance_pool s1 = balance_pool s"
    by auto
  have "move_all (balance_pool s1) s1 = (Some (ValueError (no_balance_message source)), s2)"
    using move_all_stops [OF assms(3,4)] bp assms(2) by simp
  then have f: "fire_transactions L r ts nm s = (Some (ValueError (no_balance_message source)), s2)"
    using assms(1) by (simp add: fire_transactions_def)
  from move_all_frame [OF assms(3)] have "s2 = s1\<lparr>address_pool := address_pool s2\<rparr>" .
  then have "blocks s2 = blocks s1 \<and> base_dir s2 = base_dir s1"
    by (metis state.select_convs(1,13) state.surjective state.update_convs(4))
  moreover have "map_of (address_pool s1) nm = Some (w\<lparr>balance := balance w + subsidy s\<rparr>)"
    using p by (simp add: update_conv' add_balance_def)
  ultimately show ?thesis using f b w by simp
qed


theorem fire_transactions_fails_after_commit_witness:
  "fst (fire_transactions test_lib 6 1 ''B''
          (example_state\<lparr>transaction_pool := [''t1'', ''t2''],
             balance_pool := [(''A'', ''B'', 40), (''A'', ''B'', 40)]\<rparr>)) =
     Some (ValueError (no_balance_message ''A'')) \<and>
   length (blocks (snd (fire_transactions test_lib 6 1 ''B''
          (example_state\<lparr>transaction_pool := [''t1'', ''t2''],
             balance_pool := [(''A'', ''B'', 40), (''A'', ''B'', 40)]\<rparr>)))) =
     length (blocks example_state) + 1"
proof -
  let ?s = "example_state\<lparr>transaction_pool := [''t1'', ''t2''],
             balance_pool := [(''A'', ''B'', 40), (''A'', ''B'', 40)]\<rparr>"
  let ?s1 = "snd (new_coinbase_tx_account test_lib 6 1 ''B'' ?s)"
  let ?s2 = "snd (move_all [(''A'', ''B'', 40)] ?s1)"
  have f1: "fst (new_coinbase_tx_account test_lib 6 1 ''B'' ?s) = None"
    by (simp add: run_defs)
  have h1: "new_coinbase_tx_account test_lib 6 1 ''B'' ?s = (None, ?s1)"
    by (rule prod_eqI) (simp_all only: f1 fst_conv snd_conv)
  have h2: "balance_pool ?s = [(''A'', ''B'', 40)] @ (''A'', ''B'', 40) # []"
    by simp
  have f3: "fst (move_all [(''A'', ''B'', 40)] ?s1) = None"
    by (simp add: run_defs)
  have h3: "move_all [(''A'', ''B'', 40)] ?s1 = (None, ?s2)"
    by (rule prod_eqI) (simp_all only: f3 fst_conv snd_conv)
  have h4: "have_balance ''A'' 40 ?s2 = Inr False"
    by (simp add: run_defs)
  note c = fire_transactions_fails_after_commit [OF h1 h2 h3 h4]
  have e: "fire_transactions test_lib 6 1 ''B'' ?s =
      (Some (ValueError (no_balance_message ''A'')), ?s2)"
    by (rule c [THEN conjunct1])
  have l: "length (blocks ?s2) = length (blocks ?s) + 1"
    by (rule c [THEN conjunct2, THEN conjunct1])
  have b: "blocks ?s = blocks example_state" by simp
  show ?thesis by (simp only: e fst_conv snd_conv l b)
qed

lemma update_fresh: "map_of ps k = None \<Longrightarrow> AList.update k v ps = ps @ [(k, v)]"
  by (induction ps) (auto split: if_splits)

text \<open>
  Claim C8. As amended: for a name that is already in the account pool,
  \<open>create_user\<close> raises nothing and leaves the state as it was; for a name that is
  not in the pool, with the address file open, it makes an account with a fresh key
  pair, the address derived from the verifying key and the balance 0, adds it to the
  pool and appends its record to the address file.
\<close>

theorem create_user_behaviour:
  "(map_of (address_pool s) nm \<noteq> None \<longrightarrow> create_user L r nm s = (None, s)) \<and>
   (map_of (address_pool s) nm = None \<and> address_file s = OpenFile f \<longrightarrow>
      create_user L r nm s =
        (None, s\<lparr>address_pool := address_pool s @ [(nm, Address_init L r nm 0)],
                  base_dir := append_text f
                    (json_dumps L (address_dict nm (Address_init L r nm 0)) @ [newline])
                    (base_dir s)\<rparr>) \<and>
      name (Address_init L r nm 0) = nm \<and>
      balance (Address_init L r nm 0) = 0 \<and>
      sk (Address_init L r nm 0) = sk_generate L r \<and>
      vk (Address_init L r nm 0) = verifying_key_of L (sk_generate L r) \<and>
      address (Address_init L r nm 0) = create_address L (vk (Address_init L r nm 0)))"
  by (auto simp: create_user_def save_address_data_def handle_write_def Let_def update_fresh
      Address_init_sel)

theorem create_user_behaviour_witness:
  "map_of (address_pool example_state) ''A'' \<noteq> None \<and>
   create_user test_lib 7 ''A'' example_state = (None, example_state) \<and>
   map_of (address_pool example_state) ''C'' = None \<and>
   address_file example_state = OpenFile ''address'' \<and>
   fst (create_user test_lib 7 ''C'' example_state) = None \<and>
   map (\<lambda>(n, w). (n, balance w)) (address_pool (snd (create_user test_lib 7 ''C'' example_state))) =
     [(''A'', 50), (''B'', 0), (''C'', 0)]"
proof -
  have a: "map_of (address_pool example_state) ''A'' \<noteq> None"
    by (simp add: example_state_def)
  have c: "map_of (address_pool example_state) ''C'' = None \<and>
     address_file example_state = OpenFile ''address''"
    by (simp add: example_state_def)
  note t1 = create_user_behaviour [of example_state "''A''" test_lib 7 "''address''",
      THEN conjunct1, rule_format, OF a]
  note t2 = create_user_behaviour [of example_state "''C''" test_lib 7 "''address''",
      THEN conjunct2, rule_format, OF c]
  have e: "create_user test_lib 7 ''C'' example_state =
     (None, example_state\<lparr>address_pool := address_pool example_state @
          [(''C'', Address_init test_lib 7 ''C'' 0)],
        base_dir := append_text ''address''
          (json_dumps test_lib (address_dict ''C'' (Address_init test_lib 7 ''C'' 0)) @ [newline])
          (base_dir example_state)\<rparr>)"
    by (rule t2 [THEN conjunct1])
  have b: "balance (Address_init test_lib 7 ''C'' 0) = 0"
    by (rule t2 [THEN conjunct2, THEN conjunct2, THEN conjunct1])
  show ?thesis
    by (simp add: a c t1 e b) (simp add: example_state_def example_wallet_def)
qed

text \<open>The claim as stated, that the second \<open>create_user\<close> of a name fails with an
  error, does not hold: on the state of the example, which has an account \<open>A\<close>, the
  call returns without an error and changes nothing.\<close>

theorem create_user_duplicate_counterexample:
  "create_user test_lib 7 ''A'' example_state = (None, example_state)"
  by (simp add: create_user_def example_state_def)

lemma genesis_prev_hash_text:
  "genesis_prev_hash = ''47DEQpj8HBSa+/TImW+5JCeuQeRkm5NMpJWZG3hSuFU=''"
  by (simp only: genesis_prev_hash_def sha256_empty b64encode_def decode_encode
      b64_text_empty_digest)

lemma zero_digest_text:
  "decode (b64encode (replicate 32 0)) = ''AAAAAAAAAAAAAAAAAAAAAAAAAAAAAAAAAAAAAAAAAAA=''"
  by (simp only: b64encode_def decode_encode b64_text_zero_digest)

lemma new_genesis_block_fields:
  assumes "new_genesis_block L r ts nm s = Inr g"
  shows "prev_hash g = genesis_prev_hash \<and> height g = 0 \<and>
         (hash g, nonce g) = seal L 0 ts (bits s) (transactions g) (prev_hash g) \<and>
         sign_transaction L r nm ''This is the genesis block!!!'' s = Inr (hd (transactions g)) \<and>
         length (transactions g) = 1"
  using assms
  by (auto simp: new_genesis_block_def new_block_def set_hash_def Block_init_def Let_def
      split: sum.splits prod.splits)

lemma save_address_data_frame:
  "save_address_data L a s = (r, s') \<Longrightarrow> same_ledger s s'"
  by (auto simp: save_address_data_def Let_def same_ledger_def split: sum.splits)

lemma create_user_chain:
  "create_user L r nm s = (e, s') \<Longrightarrow> blocks s' = blocks s \<and> bits s' = bits s"
  by (auto simp: create_user_def Let_def same_ledger_def split: if_splits
      dest!: save_address_data_frame)

lemma increment_balance_chain:
  "increment_balance nm a s = (e, s') \<Longrightarrow> blocks s' = blocks s \<and> bits s' = bits s"
  by (auto simp: increment_balance_def split: option.splits)

lemma save_genesis_data_frame:
  "save_genesis_data L s = (r, s') \<Longrightarrow> same_ledger s s'"
  by (auto simp: save_genesis_data_def Let_def same_ledger_def split: sum.splits list.splits)

lemma initialize_genesis:
  assumes "initialize L rk rs ts nm s = (None, s')"
  shows "\<exists>g s4. new_genesis_block L rs ts nm s4 = Inr g \<and> bits s4 = bits s \<and>
           blocks s' = blocks s @ [g]"
proof -
  from assms obtain st1 where o1: "open_w ''address'' (base_dir s) = Inr st1"
    by (auto simp: initialize_def split: sum.splits)
  let ?s1 = "s\<lparr>address_file := OpenFile ''address'', base_dir := st1\<rparr>"
  from assms o1 obtain st2 where o2: "open_w ''data-0'' (base_dir ?s1) = Inr st2"
    by (auto simp: initialize_def Let_def split: sum.splits)
  let ?s2 = "?s1\<lparr>data_file := OpenFile ''data-0'', base_dir := st2\<rparr>"
  obtain e3 s3 where cu: "create_user L rk nm ?s2 = (e3, s3)" by (cases "create_user L rk nm ?s2")
  with assms o1 o2 have e3: "e3 = None"
    by (auto simp: initialize_def Let_def split: option.splits)
  obtain e4 s4 where ib: "increment_balance nm 50 s3 = (e4, s4)"
    by (cases "increment_balance nm 50 s3")
  with assms o1 o2 cu e3 have e4: "e4 = None"
    by (auto simp: initialize_def Let_def split: option.splits)
  from assms o1 o2 cu e3 ib e4 obtain g where ng: "new_genesis_block L rs ts nm s4 = Inr g"
    by (auto simp: initialize_def Let_def split: sum.splits)
  let ?s5 = "s4\<lparr>blocks := blocks s4 @ [g]\<rparr>"
  obtain e6 s6 where sb: "save_block_data L g ?s5 = (e6, s6)"
    by (cases "save_block_data L g ?s5")
  with assms o1 o2 cu e3 ib e4 ng have e6: "e6 = None"
    by (auto simp: initialize_def Let_def split: option.splits)
  obtain e7 s7 where sm: "save_metadata L s6 = (e7, s7)" by (cases "save_metadata L s6")
  with assms o1 o2 cu e3 ib e4 ng sb e6 have e7: "e7 = None"
    by (auto simp: initialize_def Let_def split: option.splits)
  from assms o1 o2 cu e3 ib e4 ng sb e6 sm e7 have sg: "save_genesis_data L s7 = (None, s')"
    by (simp add: initialize_def Let_def)
  have "blocks s' = blocks ?s5"
    using save_block_data_frame [OF sb] save_metadata_frame [OF sm] save_genesis_data_frame [OF sg]
    by (simp add: same_ledger_def)
  moreover have "blocks s4 = blocks s \<and> bits s4 = bits s"
    using create_user_chain [OF cu] increment_balance_chain [OF ib] by simp
  ultimately show ?thesis using ng by auto
qed

lemma linked_snoc:
  "linked bs \<Longrightarrow> bs \<noteq> [] \<Longrightarrow> prev_hash b = hash (last bs) \<Longrightarrow>
   height b = height (last bs) + 1 \<Longrightarrow> linked (bs @ [b])"
  by (induction bs rule: linked.induct) auto

lemma linked_nth:
  "linked bs \<Longrightarrow> 0 < i \<Longrightarrow> i < length bs \<Longrightarrow>
   prev_hash (bs ! i) = hash (bs ! (i - 1)) \<and> height (bs ! i) = height (bs ! (i - 1)) + 1"
proof (induction bs arbitrary: i rule: linked.induct)
  case 1
  then show ?case by simp
next
  case (2 b)
  then show ?case by simp
next
  case (3 a b bs)
  show ?case
  proof (cases "i = 1")
    case True
    with "3.prems" show ?thesis by simp
  next
    case False
    with "3.prems" have "0 < i - 1" "i - 1 < length (b # bs)" "linked (b # bs)" by auto
    from "3.IH" [OF this(3) this(1) this(2)] False "3.prems"(2) show ?thesis
      by (cases i) (auto simp: nth_Cons')
  qed
qed

lemma add_transaction_chain:
  "add_transaction L r source dest amount s = (e, s') \<Longrightarrow> blocks s' = blocks s"
  by (auto simp: add_transaction_def Let_def split: sum.splits if_splits)

lemma new_coinbase_tx_account_chain:
  assumes "new_coinbase_tx_account L r ts nm s = (e, s1)"
  shows "blocks s1 = blocks s \<or>
         (blocks s \<noteq> [] \<and>
          (\<exists>b. blocks s1 = blocks s @ [b] \<and> prev_hash b = hash (last (blocks s)) \<and>
               height b = height (last (blocks s)) + 1))"
proof (cases "sign_transaction L r nm (reward_text (subsidy s) nm) s")
  case (Inl x)
  with assms show ?thesis by (simp add: new_coinbase_tx_account_def)
next
  case (Inr sd)
  let ?s1 = "s\<lparr>transaction_pool := transaction_pool s @ [sd]\<rparr>"
  show ?thesis
  proof (cases "blocks s = []")
    case True
    with assms Inr show ?thesis
      by (auto simp: new_coinbase_tx_account_def add_block_def Let_def)
  next
    case False
    let ?nb = "new_block L ts (height (last (blocks s))) (transaction_pool s @ [sd])
                 (hash (last (blocks s))) ?s1"
    let ?s2 = "?s1\<lparr>blocks := blocks s @ [?nb]\<rparr>"
    have ab: "add_block L ts (transaction_pool ?s1) nm ?s1 = (None, ?s2)"
      using False by (simp add: add_block_def Let_def)
    have nb: "prev_hash ?nb = hash (last (blocks s)) \<and> height ?nb = height (last (blocks s)) + 1"
      by (simp add: new_block_def set_hash_def Block_init_def split: prod.splits)
    obtain e3 s3 where ib: "increment_balance nm (subsidy ?s2) ?s2 = (e3, s3)"
      by (cases "increment_balance nm (subsidy ?s2) ?s2")
    from increment_balance_chain [OF ib] have b3: "blocks s3 = blocks s @ [?nb]" by simp
    show ?thesis
    proof (cases e3)
      case (Some x)
      with assms Inr ab ib have "s1 = s3" by (simp add: new_coinbase_tx_account_def Let_def)
      with b3 nb False show ?thesis by blast
    next
      case None
      with assms Inr ab ib have "save_block_data L (last (blocks s3)) s3 = (e, s1)"
        by (simp add: new_coinbase_tx_account_def Let_def)
      from save_block_data_frame [OF this] b3 have "blocks s1 = blocks s @ [?nb]"
        by (simp add: same_ledger_def)
      with nb False show ?thesis by blast
    qed
  qed
qed

lemma move_all_chain: "move_all xs s = (e, s') \<Longrightarrow> blocks s' = blocks s"
proof -
  assume "move_all xs s = (e, s')"
  from move_all_frame [OF this] have "s' = s\<lparr>address_pool := address_pool s'\<rparr>" .
  then show ?thesis by (metis state.select_convs(1) state.surjective state.update_convs(4))
qed

lemma fire_transactions_chain:
  assumes "fire_transactions L r ts nm s = (e, s')"
  shows "blocks s' = blocks s \<or>
         (blocks s \<noteq> [] \<and>
          (\<exists>b. blocks s' = blocks s @ [b] \<and> prev_hash b = hash (last (blocks s)) \<and>
               height b = height (last (blocks s)) + 1))"
proof -
  obtain e1 s1 where c: "new_coinbase_tx_account L r ts nm s = (e1, s1)"
    by (cases "new_coinbase_tx_account L r ts nm s")
  obtain e2 s2 where m: "move_all (balance_pool s1) s1 = (e2, s2)"
    by (cases "move_all (balance_pool s1) s1")
  obtain e3 s3 where a: "save_address_pool_data L s2 = (e3, s3)"
    by (cases "save_address_pool_data L s2")
  have "blocks s' = blocks s1"
    using assms c m a move_all_chain [OF m] save_address_pool_data_frame [OF a]
    by (auto simp: fire_transactions_def same_ledger_def split: option.splits)
  with new_coinbase_tx_account_chain [OF c] show ?thesis by simp
qed

lemma chain_from_grow:
  assumes "chain_from g bs"
    and "bs' = bs \<or> (bs \<noteq> [] \<and> (\<exists>b. bs' = bs @ [b] \<and> prev_hash b = hash (last bs) \<and>
               height b = height (last bs) + 1))"
  shows "chain_from g bs'"
  using assms by (auto simp: chain_from_def linked_snoc)

lemma perform_chain:
  assumes "chain_from g (blocks s)"
  shows "chain_from g (blocks (perform L c s))"
proof (cases c)
  case (CreateUser r nm)
  then show ?thesis
    using assms create_user_chain [of L r nm s "fst (create_user L r nm s)" "snd (create_user L r nm s)"]
    by simp
next
  case (AddTransaction r source dest amount)
  then show ?thesis
    using assms add_transaction_chain [of L r source dest amount s
        "fst (add_transaction L r source dest amount s)" "snd (add_transaction L r source dest amount s)"]
    by simp
next
  case (FireTransactions r ts nm)
  then show ?thesis
    using chain_from_grow [OF assms fire_transactions_chain [of L r ts nm s
        "fst (fire_transactions L r ts nm s)" "snd (fire_transactions L r ts nm s)"]]
    by simp
qed

lemma perform_all_chain:
  "chain_from g (blocks s) \<Longrightarrow> chain_from g (blocks (perform_all L calls s))"
  unfolding perform_all_def
  by (induction calls arbitrary: s) (auto intro: perform_chain)

lemma digit_char_0: "digit_char 0 = CHR ''0''"
  by code_simp

lemmas run_defs3 = digit_char_0 run_defs2 set_hash_def Block_init_def test_lib_def perform_all_def
  example_calls_def initialized_twice_def

text \<open>
  Claim C5. As amended: the genesis block that \<open>initialize\<close> appends has as its
  previous hash the base64 text of the SHA-256 digest of the empty message,
  \<open>47DEQpj8HBSa+/TImW+5JCeuQeRkm5NMpJWZG3hSuFU=\<close>, and is built from the previous
  height -1, so it is sealed at height 0. In a chain that one \<open>initialize\<close> starts
  from the empty chain and on which any calls of \<open>create_user\<close>, \<open>add_transaction\<close>
  and \<open>fire_transactions\<close> then work, whether they return or raise, it stays the
  first block and every later block has as its previous hash the hash of the block
  before it, and the height after it: the genesis block is the only block of such a
  chain that is not linked to its predecessor. Every block that \<open>add_block\<close> appends
  has as its previous hash the hash of the last block of the chain.
\<close>

theorem genesis_block_and_links:
  "(initialize L rk rs ts nm s = (None, s1) \<longrightarrow>
      (\<exists>g. blocks s1 = blocks s @ [g] \<and>
           prev_hash g = ''47DEQpj8HBSa+/TImW+5JCeuQeRkm5NMpJWZG3hSuFU='' \<and>
           prev_hash g = decode (b64encode (sha256 [])) \<and>
           height g = 0 \<and>
           (hash g, nonce g) = seal L 0 ts (bits s) (transactions g) (prev_hash g) \<and>
           (blocks s = [] \<longrightarrow>
              blocks (perform_all L calls s1) \<noteq> [] \<and>
              hd (blocks (perform_all L calls s1)) = g \<and>
              (\<forall>i. 0 < i \<and> i < length (blocks (perform_all L calls s1)) \<longrightarrow>
                 prev_hash (blocks (perform_all L calls s1) ! i) =
                   hash (blocks (perform_all L calls s1) ! (i - 1)) \<and>
                 height (blocks (perform_all L calls s1) ! i) =
                   height (blocks (perform_all L calls s1) ! (i - 1)) + 1)))) \<and>
   (add_block L ts' txs m s = (None, s') \<longrightarrow>
      (\<exists>b. blocks s \<noteq> [] \<and> blocks s' = blocks s @ [b] \<and>
           prev_hash b = hash (last (blocks s)) \<and>
           height b = height (last (blocks s)) + 1))"
proof (intro conjI impI)
  assume "initialize L rk rs ts nm s = (None, s1)"
  from initialize_genesis [OF this] obtain g s4 where
    g: "new_genesis_block L rs ts nm s4 = Inr g" "bits s4 = bits s" "blocks s1 = blocks s @ [g]"
    by blast
  note f = new_genesis_block_fields [OF g(1)]
  have inv: "blocks s = [] \<longrightarrow>
      blocks (perform_all L calls s1) \<noteq> [] \<and>
      hd (blocks (perform_all L calls s1)) = g \<and>
      (\<forall>i. 0 < i \<and> i < length (blocks (perform_all L calls s1)) \<longrightarrow>
         prev_hash (blocks (perform_all L calls s1) ! i) =
           hash (blocks (perform_all L calls s1) ! (i - 1)) \<and>
         height (blocks (perform_all L calls s1) ! i) =
           height (blocks (perform_all L calls s1) ! (i - 1)) + 1)"
  proof
    assume "blocks s = []"
    with g(3) have "chain_from g (blocks s1)" by (simp add: chain_from_def)
    from perform_all_chain [OF this, of L calls]
    have c: "chain_from g (blocks (perform_all L calls s1))" .
    then show "blocks (perform_all L calls s1) \<noteq> [] \<and>
      hd (blocks (perform_all L calls s1)) = g \<and>
      (\<forall>i. 0 < i \<and> i < length (blocks (perform_all L calls s1)) \<longrightarrow>
         prev_hash (blocks (perform_all L calls s1) ! i) =
           hash (blocks (perform_all L calls s1) ! (i - 1)) \<and>
         height (blocks (perform_all L calls s1) ! i) =
           height (blocks (perform_all L calls s1) ! (i - 1)) + 1)"
      using linked_nth [of "blocks (perform_all L calls s1)"]
      by (simp add: chain_from_def)
  qed
  show "\<exists>g. blocks s1 = blocks s @ [g] \<and>
           prev_hash g = ''47DEQpj8HBSa+/TImW+5JCeuQeRkm5NMpJWZG3hSuFU='' \<and>
           prev_hash g = decode (b64encode (sha256 [])) \<and>
           height g = 0 \<and>
           (hash g, nonce g) = seal L 0 ts (bits s) (transactions g) (prev_hash g) \<and>
           (blocks s = [] \<longrightarrow>
              blocks (perform_all L calls s1) \<noteq> [] \<and>
              hd (blocks (perform_all L calls s1)) = g \<and>
              (\<forall>i. 0 < i \<and> i < length (blocks (perform_all L calls s1)) \<longrightarrow>
                 prev_hash (blocks (perform_all L calls s1) ! i) =
                   hash (blocks (perform_all L calls s1) ! (i - 1)) \<and>
                 height (blocks (perform_all L calls s1) ! i) =
                   height (blocks (perform_all L calls s1) ! (i - 1)) + 1))"
  proof (intro exI [of _ g] conjI)
    show "blocks s1 = blocks s @ [g]" by (rule g(3))
    show "prev_hash g = ''47DEQpj8HBSa+/TImW+5JCeuQeRkm5NMpJWZG3hSuFU=''"
      using f genesis_prev_hash_text by simp
    show "prev_hash g = decode (b64encode (sha256 []))"
      using f by (simp add: genesis_prev_hash_def)
    show "height g = 0" using f by simp
    show "(hash g, nonce g) = seal L 0 ts (bits s) (transactions g) (prev_hash g)"
      using f g(2) by simp
    show "blocks s = [] \<longrightarrow>
      blocks (perform_all L calls s1) \<noteq> [] \<and>
      hd (blocks (perform_all L calls s1)) = g \<and>
      (\<forall>i. 0 < i \<and> i < length (blocks (perform_all L calls s1)) \<longrightarrow>
         prev_hash (blocks (perform_all L calls s1) ! i) =
           hash (blocks (perform_all L calls s1) ! (i - 1)) \<and>
         height (blocks (perform_all L calls s1) ! i) =
           height (blocks (perform_all L calls s1) ! (i - 1)) + 1)"
      by (rule inv)
  qed
next
  assume "add_block L ts' txs m s = (None, s')"
  then show "\<exists>b. blocks s \<noteq> [] \<and> blocks s' = blocks s @ [b] \<and>
           prev_hash b = hash (last (blocks s)) \<and>
           height b = height (last (blocks s)) + 1"
    by (auto simp: add_block_def new_block_def set_hash_def Block_init_def Let_def
        split: if_splits prod.splits)
qed

theorem genesis_block_and_links_witness:
  "fst (initialize test_lib 1 2 0 ''A'' (Blockchain_init (Some []))) = None \<and>
   blocks (Blockchain_init (Some [])) = [] \<and>
   length (blocks (perform_all test_lib example_calls
      (snd (initialize test_lib 1 2 0 ''A'' (Blockchain_init (Some [])))))) = 3 \<and>
   prev_hash (hd (blocks (perform_all test_lib example_calls
      (snd (initialize test_lib 1 2 0 ''A'' (Blockchain_init (Some []))))))) = ''47DEQpj8HBSa+/TImW+5JCeuQeRkm5NMpJWZG3hSuFU='' \<and>
   prev_hash (blocks (perform_all test_lib example_calls
      (snd (initialize test_lib 1 2 0 ''A'' (Blockchain_init (Some []))))) ! 2) =
     hash (blocks (perform_all test_lib example_calls
      (snd (initialize test_lib 1 2 0 ''A'' (Blockchain_init (Some []))))) ! 1) \<and>
   fst (add_block test_lib 1 [''t''] ''A'' example_state) = None \<and>
   map prev_hash (blocks (snd (add_block test_lib 1 [''t''] ''A'' example_state))) =
     [genesis_prev_hash, ''hash-0'']"
proof -
  let ?s0 = "Blockchain_init (Some [])"
  let ?i = "initialize test_lib 1 2 0 ''A'' ?s0"
  let ?bs = "blocks (perform_all test_lib example_calls (snd ?i))"
  let ?a = "add_block test_lib 1 [''t''] ''A'' example_state"
  have f: "fst ?i = None"
    by (simp add: run_defs2 Address_init_sel)
  have h: "?i = (None, snd ?i)"
    by (rule prod_eqI) (simp_all only: f fst_conv snd_conv)
  have e: "blocks ?s0 = []" by (simp add: Blockchain_init_def)
  have n: "length ?bs = 3"
    by (simp add: run_defs3 Address_init_sel)
  from genesis_block_and_links [where L = test_lib and rk = 1 and rs = 2 and ts = 0
      and nm = "''A''" and s = ?s0 and ?s1.0 = "snd ?i" and calls = example_calls,
      THEN conjunct1, rule_format, OF h]
  obtain g where g: "prev_hash g = ''47DEQpj8HBSa+/TImW+5JCeuQeRkm5NMpJWZG3hSuFU=''"
    and r: "blocks ?s0 = [] \<longrightarrow> ?bs \<noteq> [] \<and> hd ?bs = g \<and>
       (\<forall>i. 0 < i \<and> i < length ?bs \<longrightarrow>
          prev_hash (?bs ! i) = hash (?bs ! (i - 1)) \<and>
          height (?bs ! i) = height (?bs ! (i - 1)) + 1)"
    by blast
  from r e have hdg: "hd ?bs = g" and
    all: "\<forall>i. 0 < i \<and> i < length ?bs \<longrightarrow>
          prev_hash (?bs ! i) = hash (?bs ! (i - 1)) \<and>
          height (?bs ! i) = height (?bs ! (i - 1)) + 1"
    by blast+
  have "0 < (2::nat) \<and> 2 < length ?bs" by (simp only: n) simp
  with all have "prev_hash (?bs ! 2) = hash (?bs ! (2 - 1))" by blast
  then have l: "prev_hash (?bs ! 2) = hash (?bs ! 1)" by simp
  have p: "prev_hash (hd ?bs) = ''47DEQpj8HBSa+/TImW+5JCeuQeRkm5NMpJWZG3hSuFU=''" by (simp only: hdg g)
  have fa: "fst ?a = None"
    by (simp add: add_block_def example_state_def Let_def)
  have ha: "?a = (None, snd ?a)"
    by (rule prod_eqI) (simp_all only: fa fst_conv snd_conv)
  from genesis_block_and_links [where L = test_lib and ts' = 1 and txs = "[''t'']"
      and m = "''A''" and s = example_state and s' = "snd ?a",
      THEN conjunct2, rule_format, OF ha]
  obtain b where b: "blocks (snd ?a) = blocks example_state @ [b]"
    "prev_hash b = hash (last (blocks example_state))"
    by blast
  have a: "map prev_hash (blocks (snd ?a)) = [genesis_prev_hash, ''hash-0'']"
    using b by (simp add: example_state_def example_block_def)
  from f e n p l fa a show ?thesis by blast
qed

text \<open>The claim as stated does not hold in two places. The placeholder is not an
  all-zero digest: the previous hash of the genesis block is not the base64 text of
  32 zero bytes, and the digest it encodes is not zero. And the block with the
  placeholder is not unique in every chain: \<open>initialize\<close> does not look at the chain,
  and called a second time it appends a second block with the placeholder, which is
  not the hash of the block before it.\<close>

theorem genesis_prev_hash_counterexample:
  "map_sum id prev_hash (new_genesis_block test_lib 2 0 ''A'' example_state) = Inr ''47DEQpj8HBSa+/TImW+5JCeuQeRkm5NMpJWZG3hSuFU='' \<and>
   ''47DEQpj8HBSa+/TImW+5JCeuQeRkm5NMpJWZG3hSuFU='' \<noteq> decode (b64encode (replicate 32 0)) \<and>
   sha256 [] \<noteq> replicate 32 0 \<and>
   fst initialized_twice = None \<and>
   map prev_hash (blocks (snd initialized_twice)) = [''47DEQpj8HBSa+/TImW+5JCeuQeRkm5NMpJWZG3hSuFU='', ''47DEQpj8HBSa+/TImW+5JCeuQeRkm5NMpJWZG3hSuFU=''] \<and>
   map hash (blocks (snd initialized_twice)) = [''hash-0'', ''hash-0''] \<and>
   prev_hash (blocks (snd initialized_twice) ! 1) \<noteq> hash (blocks (snd initialized_twice) ! 0)"
proof -
  have 1: "map_sum id prev_hash (new_genesis_block test_lib 2 0 ''A'' example_state) =
     Inr genesis_prev_hash"
    by (simp add: new_genesis_block_def sign_transaction_def example_state_def new_block_def
        set_hash_def Block_init_def test_lib_def Let_def)
  have 2: "''47DEQpj8HBSa+/TImW+5JCeuQeRkm5NMpJWZG3hSuFU='' \<noteq> decode (b64encode (replicate 32 0))"
    by (simp add: zero_digest_text)
  have "empty_digest \<noteq> replicate 32 0"
    by code_simp
  then have 3: "sha256 [] \<noteq> replicate 32 0"
    by (simp add: sha256_empty)
  have 4: "fst initialized_twice = None"
    by (simp add: run_defs3 Address_init_sel)
  have 5: "map prev_hash (blocks (snd initialized_twice)) = [genesis_prev_hash, genesis_prev_hash]"
    by (simp add: run_defs3 Address_init_sel)
  have 6: "map hash (blocks (snd initialized_twice)) = [''hash-0'', ''hash-0'']"
    by (simp add: run_defs3 Address_init_sel)
  have 7: "prev_hash (blocks (snd initialized_twice) ! 1) = genesis_prev_hash \<and>
           hash (blocks (snd initialized_twice) ! 0) = ''hash-0''"
    by (simp add: run_defs3 Address_init_sel)
  from 1 2 3 4 5 6 7 show ?thesis by (simp add: genesis_prev_hash_text)
qed

end
